theory Spec2Isabelle
  imports Complex_Main "HOL-Library.Word" "HOL-Library.Sublist"
begin

section \<open>htmlgopdf: options, builder and generator\<close>

text \<open>
  A shallow embedding of the Go package \<^verbatim>\<open>htmlgopdf\<close> (\<^verbatim>\<open>src/builder.go\<close> holds the
  builder and the options record, \<^verbatim>\<open>src/generator.go\<close> the generator).

  \<^item> \<^verbatim>\<open>float64\<close> values are only stored, copied and compared with zero by this
    package; no arithmetic is done on them. They are modelled as \<open>real\<close>, a literal
    such as \<^verbatim>\<open>8.27\<close> standing for its decimal value.
  \<^item> \<^verbatim>\<open>time.Duration\<close> is a signed 64-bit count of nanoseconds: a \<open>64 word\<close> read
    by the signed order \<open><s\<close>.
  \<^item> \<^verbatim>\<open>*PDFOptions\<close> is a pointer: \<open>None\<close> is \<^verbatim>\<open>nil\<close>, \<open>Some r\<close> a reference into
    the store \<open>mem\<close> of the \<open>world\<close>. The builder writes through the pointer, and
    \<^verbatim>\<open>Build\<close> hands the same pointer to the generator.
  \<^item> A nil pointer dereference is the outcome \<open>Panic\<close>.
\<close>

subsection \<open>Data\<close>

type_synonym float64 = real
type_synonym Duration = "64 word"
type_synonym byte = "8 word"
type_synonym ref = nat

definition Millisecond :: Duration where
  "Millisecond = 1000000"

definition Second :: Duration where
  "Second = 1000000000"

record PDFOptions =
  Format :: string
  Width :: float64
  Height :: float64
  MarginTop :: float64
  MarginBottom :: float64
  MarginLeft :: float64
  MarginRight :: float64
  Landscape :: bool
  PrintBackground :: bool
  Scale :: float64
  DisplayHeaderFooter :: bool
  HeaderTemplate :: string
  FooterTemplate :: string
  WaitForSelector :: string
  WaitTime :: Duration
  Timeout :: Duration

text \<open>
  \<^verbatim>\<open>page.PrintToPDFParams\<close> of the browser client library, restricted to the fields
  \<^verbatim>\<open>generatePDF\<close> assigns (the others stay at their zero values in every request).
  The field names carry the suffix \<open>_req\<close> where they would clash with \<open>PDFOptions\<close>.
\<close>

record PrintToPDFParams =
  Landscape_req :: bool
  DisplayHeaderFooter_req :: bool
  PrintBackground_req :: bool
  Scale_req :: float64
  PaperWidth :: float64
  PaperHeight :: float64
  MarginTop_req :: float64
  MarginBottom_req :: float64
  MarginLeft_req :: float64
  MarginRight_req :: float64
  HeaderTemplate_req :: string
  FooterTemplate_req :: string

text \<open>
  Go errors. \<open>ClientError m\<close> is an error value handed back by the browser client,
  \<open>Errorf prefix e\<close> the value of \<^verbatim>\<open>fmt.Errorf(prefix + "%w", e)\<close>: a new error whose
  message is the prefix followed by the message of \<open>e\<close> and whose \<^verbatim>\<open>Unwrap\<close> is \<open>e\<close>.
\<close>

datatype error = ClientError string | Errorf string error

fun Error :: "error \<Rightarrow> string" where
  "Error (ClientError m) = m"
| "Error (Errorf msg e) = msg @ Error e"

fun Unwrap :: "error \<Rightarrow> error option" where
  "Unwrap (ClientError m) = None"
| "Unwrap (Errorf msg e) = Some e"

fun root_cause :: "error \<Rightarrow> error" where
  "root_cause (ClientError m) = ClientError m"
| "root_cause (Errorf msg e) = root_cause e"

datatype 'a outcome = Panic | Return (returned: 'a)

text \<open>
  The actions the external client performs for this package, each one named after the
  \<^verbatim>\<open>chromedp\<close> constructor that builds it; \<open>PrintToPDF\<close> is \<^verbatim>\<open>PrintToPDFParams.Do\<close>.
\<close>

datatype command =
    Navigate string
  | WaitReady string
  | WaitVisible string
  | Sleep Duration
  | PrintToPDF PrintToPDFParams

text \<open>
  The browser and its client library are outside the package: a \<open>session\<close> is the
  answer of the client to a command, given the commands performed before it, either
  an error or the bytes that came back (used for \<open>PrintToPDF\<close> only).
  The \<open>world\<close> holds the options records that pointers refer to, the next free
  reference, and the commands performed so far.
\<close>

type_synonym session = "command list \<Rightarrow> command \<Rightarrow> error + byte list"

record world =
  mem :: "ref \<Rightarrow> PDFOptions"
  next_ref :: ref
  history :: "command list"

text \<open>
  What the package needs from outside: \<^verbatim>\<open>url.PathEscape\<close> of the standard library,
  and \<^verbatim>\<open>chromedp.NewContext\<close> on a context with the given timeout, which yields the
  session the commands of one conversion go to.
\<close>

record env =
  PathEscape :: "string \<Rightarrow> string"
  NewContext :: "Duration \<Rightarrow> session"

record Generator =
  options :: "ref option"

record OptionsBuilder =
  options_b :: "ref option"

subsection \<open>\<^verbatim>\<open>DefaultOptions\<close> and \<^verbatim>\<open>NewGenerator\<close>\<close>

definition alloc :: "PDFOptions \<Rightarrow> world \<Rightarrow> ref \<times> world" where
  "alloc v w = (next_ref w, w\<lparr>mem := (mem w)(next_ref w := v), next_ref := Suc (next_ref w)\<rparr>)"

definition default_record :: PDFOptions where
  "default_record = \<lparr>
     Format = ''A4'',
     Width = 0,
     Height = 0,
     MarginTop = 0.4,
     MarginBottom = 0.4,
     MarginLeft = 0.4,
     MarginRight = 0.4,
     Landscape = False,
     PrintBackground = True,
     Scale = 1.0,
     DisplayHeaderFooter = False,
     HeaderTemplate = '''',
     FooterTemplate = '''',
     WaitForSelector = '''',
     WaitTime = Second * 2,
     Timeout = Second * 30 \<rparr>"

definition DefaultOptions :: "world \<Rightarrow> ref \<times> world" where
  "DefaultOptions w = alloc default_record w"

definition NewGenerator :: "ref option \<Rightarrow> world \<Rightarrow> Generator \<times> world" where
  "NewGenerator opts w =
     (case opts of
        None \<Rightarrow> (case DefaultOptions w of (r, w') \<Rightarrow> (\<lparr>options = Some r\<rparr>, w'))
      | Some r \<Rightarrow> (\<lparr>options = Some r\<rparr>, w))"

subsection \<open>The builder\<close>

text \<open>
  Every setter assigns through \<^verbatim>\<open>b.options\<close> and returns \<^verbatim>\<open>b\<close>. The first assignment
  panics when the pointer is nil; after it the pointer is known to be valid, so the
  assignments of one method are one update of the record.
\<close>

definition assign :: "OptionsBuilder \<Rightarrow> (PDFOptions \<Rightarrow> PDFOptions) \<Rightarrow> world \<Rightarrow> (OptionsBuilder \<times> world) outcome" where
  "assign b f w =
     (case options_b b of
        None \<Rightarrow> Panic
      | Some r \<Rightarrow> Return (b, w\<lparr>mem := (mem w)(r := f (mem w r))\<rparr>))"

definition WithOptions :: "world \<Rightarrow> OptionsBuilder \<times> world" where
  "WithOptions w = (case DefaultOptions w of (r, w') \<Rightarrow> (\<lparr>options_b = Some r\<rparr>, w'))"

definition OptionsBuilder_Format :: "OptionsBuilder \<Rightarrow> string \<Rightarrow> world \<Rightarrow> (OptionsBuilder \<times> world) outcome" where
  "OptionsBuilder_Format b format = assign b (\<lambda>opt. opt\<lparr>Format := format\<rparr>)"

definition OptionsBuilder_Size :: "OptionsBuilder \<Rightarrow> float64 \<Rightarrow> float64 \<Rightarrow> world \<Rightarrow> (OptionsBuilder \<times> world) outcome" where
  "OptionsBuilder_Size b width height =
     assign b (\<lambda>opt. opt\<lparr>Width := width, Height := height, Format := ''''\<rparr>)"

definition OptionsBuilder_Margins :: "OptionsBuilder \<Rightarrow> float64 \<Rightarrow> float64 \<Rightarrow> float64 \<Rightarrow> float64 \<Rightarrow> world \<Rightarrow> (OptionsBuilder \<times> world) outcome" where
  "OptionsBuilder_Margins b top' bottom' left' right' =
     assign b (\<lambda>opt. opt\<lparr>MarginTop := top', MarginBottom := bottom', MarginLeft := left', MarginRight := right'\<rparr>)"

definition OptionsBuilder_Landscape :: "OptionsBuilder \<Rightarrow> world \<Rightarrow> (OptionsBuilder \<times> world) outcome" where
  "OptionsBuilder_Landscape b = assign b (\<lambda>opt. opt\<lparr>Landscape := True\<rparr>)"

definition OptionsBuilder_Portrait :: "OptionsBuilder \<Rightarrow> world \<Rightarrow> (OptionsBuilder \<times> world) outcome" where
  "OptionsBuilder_Portrait b = assign b (\<lambda>opt. opt\<lparr>Landscape := False\<rparr>)"

definition OptionsBuilder_Scale :: "OptionsBuilder \<Rightarrow> float64 \<Rightarrow> world \<Rightarrow> (OptionsBuilder \<times> world) outcome" where
  "OptionsBuilder_Scale b scale = assign b (\<lambda>opt. opt\<lparr>Scale := scale\<rparr>)"

definition OptionsBuilder_PrintBackground :: "OptionsBuilder \<Rightarrow> bool \<Rightarrow> world \<Rightarrow> (OptionsBuilder \<times> world) outcome" where
  "OptionsBuilder_PrintBackground b enable = assign b (\<lambda>opt. opt\<lparr>PrintBackground := enable\<rparr>)"

definition OptionsBuilder_HeaderFooter :: "OptionsBuilder \<Rightarrow> string \<Rightarrow> string \<Rightarrow> world \<Rightarrow> (OptionsBuilder \<times> world) outcome" where
  "OptionsBuilder_HeaderFooter b header footer =
     assign b (\<lambda>opt. opt\<lparr>DisplayHeaderFooter := True, HeaderTemplate := header, FooterTemplate := footer\<rparr>)"

definition OptionsBuilder_WaitFor :: "OptionsBuilder \<Rightarrow> string \<Rightarrow> world \<Rightarrow> (OptionsBuilder \<times> world) outcome" where
  "OptionsBuilder_WaitFor b selector = assign b (\<lambda>opt. opt\<lparr>WaitForSelector := selector\<rparr>)"

definition OptionsBuilder_WaitTime :: "OptionsBuilder \<Rightarrow> Duration \<Rightarrow> world \<Rightarrow> (OptionsBuilder \<times> world) outcome" where
  "OptionsBuilder_WaitTime b duration = assign b (\<lambda>opt. opt\<lparr>WaitTime := duration\<rparr>)"

definition OptionsBuilder_Timeout :: "OptionsBuilder \<Rightarrow> Duration \<Rightarrow> world \<Rightarrow> (OptionsBuilder \<times> world) outcome" where
  "OptionsBuilder_Timeout b duration = assign b (\<lambda>opt. opt\<lparr>Timeout := duration\<rparr>)"

definition Build :: "OptionsBuilder \<Rightarrow> world \<Rightarrow> Generator \<times> world" where
  "Build b w = NewGenerator (options_b b) w"

subsection \<open>The print request\<close>

text \<open>
  Lines 116 to 159 of \<^verbatim>\<open>generatePDF\<close>: the request is built from the options record,
  one assignment after the other.
\<close>

definition generatePDF_params :: "PDFOptions \<Rightarrow> PrintToPDFParams" where
  "generatePDF_params opt =
     (let params = \<lparr>
            Landscape_req = Landscape opt,
            DisplayHeaderFooter_req = DisplayHeaderFooter opt,
            PrintBackground_req = PrintBackground opt,
            Scale_req = Scale opt,
            PaperWidth = 0,
            PaperHeight = 0,
            MarginTop_req = 0,
            MarginBottom_req = 0,
            MarginLeft_req = 0,
            MarginRight_req = 0,
            HeaderTemplate_req = '''',
            FooterTemplate_req = '''' \<rparr>;
          params =
            (if Format opt \<noteq> '''' then
               (if Format opt = ''A4'' then params\<lparr>PaperWidth := 8.27, PaperHeight := 11.7\<rparr>
                else if Format opt = ''A3'' then params\<lparr>PaperWidth := 11.7, PaperHeight := 16.5\<rparr>
                else if Format opt = ''Letter'' then params\<lparr>PaperWidth := 8.5, PaperHeight := 11.0\<rparr>
                else if Format opt = ''Legal'' then params\<lparr>PaperWidth := 8.5, PaperHeight := 14.0\<rparr>
                else if Format opt = ''Tabloid'' then params\<lparr>PaperWidth := 11.0, PaperHeight := 17.0\<rparr>
                else params)
             else if Width opt > 0 \<and> Height opt > 0 then
               params\<lparr>PaperWidth := Width opt, PaperHeight := Height opt\<rparr>
             else params);
          params = params\<lparr>
            MarginTop_req := MarginTop opt,
            MarginBottom_req := MarginBottom opt,
            MarginLeft_req := MarginLeft opt,
            MarginRight_req := MarginRight opt \<rparr>;
          params = (if HeaderTemplate opt \<noteq> '''' then params\<lparr>HeaderTemplate_req := HeaderTemplate opt\<rparr> else params);
          params = (if FooterTemplate opt \<noteq> '''' then params\<lparr>FooterTemplate_req := FooterTemplate opt\<rparr> else params)
      in params)"

subsection \<open>Actions and \<^verbatim>\<open>chromedp.Run\<close>\<close>

text \<open>
  A \<^verbatim>\<open>chromedp.Action\<close> is a command of the client (\<open>Prim\<close>), a list of actions
  (\<^verbatim>\<open>chromedp.Tasks\<close>) or a Go closure (\<^verbatim>\<open>chromedp.ActionFunc\<close>). A closure gets the
  context, here the session, and works on the variables \<open>'l\<close> it captured from the
  enclosing function and on the world; it returns its \<^verbatim>\<open>error\<close> (\<open>None\<close> is \<^verbatim>\<open>nil\<close>).
  \<^verbatim>\<open>Run\<close> and \<^verbatim>\<open>Tasks.Do\<close> perform the actions in order and return the first error,
  leaving the remaining actions alone.
\<close>

datatype 'l Action =
    Prim command
  | Tasks "'l Action list"
  | ActionFunc "session \<Rightarrow> 'l \<times> world \<Rightarrow> (error option \<times> 'l \<times> world) outcome"

definition perform :: "session \<Rightarrow> command \<Rightarrow> world \<Rightarrow> (error + byte list) \<times> world" where
  "perform ctx c w = (ctx (history w) c, w\<lparr>history := history w @ [c]\<rparr>)"

fun Do :: "session \<Rightarrow> 'l Action \<Rightarrow> 'l \<times> world \<Rightarrow> (error option \<times> 'l \<times> world) outcome"
  and DoTasks :: "session \<Rightarrow> 'l Action list \<Rightarrow> 'l \<times> world \<Rightarrow> (error option \<times> 'l \<times> world) outcome"
  where
  "Do ctx (Prim c) (l, w) =
     (case perform ctx c w of
        (Inl e, w') \<Rightarrow> Return (Some e, l, w')
      | (Inr d, w') \<Rightarrow> Return (None, l, w'))"
| "Do ctx (Tasks as) st = DoTasks ctx as st"
| "Do ctx (ActionFunc f) st = f ctx st"
| "DoTasks ctx [] (l, w) = Return (None, l, w)"
| "DoTasks ctx (a # as) st =
     (case Do ctx a st of
        Panic \<Rightarrow> Panic
      | Return (Some e, st') \<Rightarrow> Return (Some e, st')
      | Return (None, st') \<Rightarrow> DoTasks ctx as st')"

definition Run :: "session \<Rightarrow> 'l Action list \<Rightarrow> 'l \<times> world \<Rightarrow> (error option \<times> 'l \<times> world) outcome" where
  "Run ctx actions st = DoTasks ctx actions st"

text \<open>
  \<^verbatim>\<open>PrintToPDFParams.Do\<close>: the print command; it returns the decoded bytes or the
  error of the client (the stream handle, which the package discards, is left out).
\<close>

definition PrintToPDFParams_Do :: "PrintToPDFParams \<Rightarrow> session \<Rightarrow> world \<Rightarrow> (byte list option \<times> error option) \<times> world" where
  "PrintToPDFParams_Do params ctx w =
     (case perform ctx (PrintToPDF params) w of
        (Inl e, w') \<Rightarrow> ((None, Some e), w')
      | (Inr d, w') \<Rightarrow> ((Some d, None), w'))"

subsection \<open>The generator\<close>

definition waitForConditions :: "Generator \<Rightarrow> world \<Rightarrow> 'l Action outcome" where
  "waitForConditions g w =
     (case options g of
        None \<Rightarrow> Panic
      | Some r \<Rightarrow>
          (let opt = mem w r;
               actions = [];
               actions = (if WaitForSelector opt \<noteq> ''''
                          then actions @ [Prim (WaitVisible (WaitForSelector opt))] else actions);
               actions = (if 0 <s WaitTime opt
                          then actions @ [Prim (Sleep (WaitTime opt))] else actions)
           in if length actions = 0 then Return (Prim (Sleep (500 * Millisecond)))
              else Return (Tasks actions)))"

text \<open>
  \<^verbatim>\<open>generatePDF\<close>: the closure handed to the inner \<^verbatim>\<open>Run\<close> captures the local
  \<^verbatim>\<open>pdfData\<close> and assigns it from \<^verbatim>\<open>params.Do\<close>.
\<close>

definition generatePDF :: "Generator \<Rightarrow> session \<Rightarrow> world \<Rightarrow> ((byte list option \<times> error option) \<times> world) outcome" where
  "generatePDF g ctx w =
     (case options g of
        None \<Rightarrow> Panic
      | Some r \<Rightarrow>
          (let params = generatePDF_params (mem w r) in
           case Run ctx
                  [ActionFunc (\<lambda>ctx (pdfData, w).
                     case PrintToPDFParams_Do params ctx w of
                       ((d, err), w') \<Rightarrow> Return (err, d, w'))]
                  (None, w) of
             Panic \<Rightarrow> Panic
           | Return (Some err, pdfData, w') \<Rightarrow>
               Return ((None, Some (Errorf ''failed to generate PDF: '' err)), w')
           | Return (None, pdfData, w') \<Rightarrow> Return ((pdfData, None), w')))"

text \<open>
  \<^verbatim>\<open>Generator.FromHTML\<close> and \<^verbatim>\<open>Generator.FromURL\<close>. The first dereference of
  \<^verbatim>\<open>g.options\<close> reads the timeout; the arguments of \<^verbatim>\<open>Run\<close> are evaluated before the
  call, so \<^verbatim>\<open>waitForConditions\<close> runs before any command is performed. The closure
  captures \<^verbatim>\<open>pdfData\<close> and \<^verbatim>\<open>err\<close> and assigns both from \<^verbatim>\<open>generatePDF\<close>.
\<close>

definition Generator_FromHTML :: "env \<Rightarrow> Generator \<Rightarrow> string \<Rightarrow> world \<Rightarrow> ((byte list option \<times> error option) \<times> world) outcome" where
  "Generator_FromHTML ev g htmlContent w =
     (case options g of
        None \<Rightarrow> Panic
      | Some r \<Rightarrow>
          (let ctx = NewContext ev (Timeout (mem w r));
               dataURL = ''data:text/html;charset=utf-8,'' @ PathEscape ev htmlContent
           in case waitForConditions g w of
                Panic \<Rightarrow> Panic
              | Return wait \<Rightarrow>
                  (case Run ctx
                          [Prim (Navigate dataURL),
                           Prim (WaitReady ''body''),
                           wait,
                           ActionFunc (\<lambda>ctx ((pdfData, err), w).
                             case generatePDF g ctx w of
                               Panic \<Rightarrow> Panic
                             | Return ((d, e), w') \<Rightarrow> Return (e, (d, e), w'))]
                          ((None, None), w) of
                     Panic \<Rightarrow> Panic
                   | Return (Some err, (pdfData, err'), w') \<Rightarrow>
                       Return ((None, Some (Errorf ''failed to generate PDF: '' err)), w')
                   | Return (None, (pdfData, err'), w') \<Rightarrow> Return ((pdfData, None), w'))))"

definition Generator_FromURL :: "env \<Rightarrow> Generator \<Rightarrow> string \<Rightarrow> world \<Rightarrow> ((byte list option \<times> error option) \<times> world) outcome" where
  "Generator_FromURL ev g url w =
     (case options g of
        None \<Rightarrow> Panic
      | Some r \<Rightarrow>
          (let ctx = NewContext ev (Timeout (mem w r))
           in case waitForConditions g w of
                Panic \<Rightarrow> Panic
              | Return wait \<Rightarrow>
                  (case Run ctx
                          [Prim (Navigate url),
                           Prim (WaitReady ''body''),
                           wait,
                           ActionFunc (\<lambda>ctx ((pdfData, err), w).
                             case generatePDF g ctx w of
                               Panic \<Rightarrow> Panic
                             | Return ((d, e), w') \<Rightarrow> Return (e, (d, e), w'))]
                          ((None, None), w) of
                     Panic \<Rightarrow> Panic
                   | Return (Some err, (pdfData, err'), w') \<Rightarrow>
                       Return ((None, Some (Errorf ''failed to generate PDF from URL: '' err)), w')
                   | Return (None, (pdfData, err'), w') \<Rightarrow> Return ((pdfData, None), w'))))"

subsection \<open>Convenience functions\<close>

definition FromHTML :: "env \<Rightarrow> string \<Rightarrow> world \<Rightarrow> ((byte list option \<times> error option) \<times> world) outcome" where
  "FromHTML ev htmlContent w =
     (case DefaultOptions w of (r, w1) \<Rightarrow>
      case NewGenerator (Some r) w1 of (generator, w2) \<Rightarrow>
        Generator_FromHTML ev generator htmlContent w2)"

definition FromURL :: "env \<Rightarrow> string \<Rightarrow> world \<Rightarrow> ((byte list option \<times> error option) \<times> world) outcome" where
  "FromURL ev url w =
     (case DefaultOptions w of (r, w1) \<Rightarrow>
      case NewGenerator (Some r) w1 of (generator, w2) \<Rightarrow>
        Generator_FromURL ev generator url w2)"

definition Generate :: "env \<Rightarrow> OptionsBuilder \<Rightarrow> string \<Rightarrow> world \<Rightarrow> ((byte list option \<times> error option) \<times> world) outcome" where
  "Generate ev b htmlContent w =
     (case Build b w of (g, w') \<Rightarrow> Generator_FromHTML ev g htmlContent w')"

definition GenerateFromURL :: "env \<Rightarrow> OptionsBuilder \<Rightarrow> string \<Rightarrow> world \<Rightarrow> ((byte list option \<times> error option) \<times> world) outcome" where
  "GenerateFromURL ev b url w =
     (case Build b w of (g, w') \<Rightarrow> Generator_FromURL ev g url w')"

section \<open>Auxiliary functions for the proofs\<close>

text \<open>
  \<open>issue ctx h cs\<close> performs the commands \<open>cs\<close> one after the other from the history
  \<open>h\<close>, stopping after the first one the client answers with an error; it returns
  that error, if any, and the history reached.
\<close>

fun issue :: "session \<Rightarrow> command list \<Rightarrow> command list \<Rightarrow> error option \<times> command list" where
  "issue ctx h [] = (None, h)"
| "issue ctx h (c # cs) =
     (case ctx h c of
        Inl e \<Rightarrow> (Some e, h @ [c])
      | Inr d \<Rightarrow> issue ctx (h @ [c]) cs)"

text \<open>The commands of the action that \<^verbatim>\<open>waitForConditions\<close> returns, in order.\<close>

definition wait_commands :: "PDFOptions \<Rightarrow> command list" where
  "wait_commands opt =
     (if WaitForSelector opt = '''' \<and> \<not> 0 <s WaitTime opt then [Sleep (500 * Millisecond)]
      else (if WaitForSelector opt \<noteq> '''' then [WaitVisible (WaitForSelector opt)] else [])
         @ (if 0 <s WaitTime opt then [Sleep (WaitTime opt)] else []))"

text \<open>
  The sequence of commands of one conversion: navigate to the target, wait for the
  body, the configured waits, print.
\<close>

definition fixed_sequence :: "PDFOptions \<Rightarrow> string \<Rightarrow> command list" where
  "fixed_sequence opt target =
     [Navigate target, WaitReady ''body''] @ wait_commands opt @ [PrintToPDF (generatePDF_params opt)]"

text \<open>The body that \<^verbatim>\<open>FromHTML\<close> and \<^verbatim>\<open>FromURL\<close> share, for the proofs.\<close>

definition conversion :: "env \<Rightarrow> Generator \<Rightarrow> string \<Rightarrow> string \<Rightarrow> world \<Rightarrow> ((byte list option \<times> error option) \<times> world) outcome" where
  "conversion ev g target msg w =
     (case options g of
        None \<Rightarrow> Panic
      | Some r \<Rightarrow>
          (let ctx = NewContext ev (Timeout (mem w r))
           in case waitForConditions g w of
                Panic \<Rightarrow> Panic
              | Return wait \<Rightarrow>
                  (case Run ctx
                          [Prim (Navigate target),
                           Prim (WaitReady ''body''),
                           wait,
                           ActionFunc (\<lambda>ctx ((pdfData, err), w).
                             case generatePDF g ctx w of
                               Panic \<Rightarrow> Panic
                             | Return ((d, e), w') \<Rightarrow> Return (e, (d, e), w'))]
                          ((None, None), w) of
                     Panic \<Rightarrow> Panic
                   | Return (Some err, (pdfData, err'), w') \<Rightarrow>
                       Return ((None, Some (Errorf msg err)), w')
                   | Return (None, (pdfData, err'), w') \<Rightarrow> Return ((pdfData, None), w'))))"

section \<open>Chains of builder calls and concrete inputs\<close>

text \<open>
  A chain \<^verbatim>\<open>b.M1(...).M2(...)\<close> of setter calls, as data: each call is applied to the
  builder the previous one returned.
\<close>

datatype builder_call =
    CallFormat string
  | CallSize float64 float64
  | CallMargins float64 float64 float64 float64
  | CallLandscape
  | CallPortrait
  | CallScale float64
  | CallPrintBackground bool
  | CallHeaderFooter string string
  | CallWaitFor string
  | CallWaitTime Duration
  | CallTimeout Duration

fun call :: "OptionsBuilder \<Rightarrow> builder_call \<Rightarrow> world \<Rightarrow> (OptionsBuilder \<times> world) outcome" where
  "call b (CallFormat format) w = OptionsBuilder_Format b format w"
| "call b (CallSize width height) w = OptionsBuilder_Size b width height w"
| "call b (CallMargins top' bottom' left' right') w = OptionsBuilder_Margins b top' bottom' left' right' w"
| "call b CallLandscape w = OptionsBuilder_Landscape b w"
| "call b CallPortrait w = OptionsBuilder_Portrait b w"
| "call b (CallScale scale) w = OptionsBuilder_Scale b scale w"
| "call b (CallPrintBackground enable) w = OptionsBuilder_PrintBackground b enable w"
| "call b (CallHeaderFooter header footer) w = OptionsBuilder_HeaderFooter b header footer w"
| "call b (CallWaitFor selector) w = OptionsBuilder_WaitFor b selector w"
| "call b (CallWaitTime duration) w = OptionsBuilder_WaitTime b duration w"
| "call b (CallTimeout duration) w = OptionsBuilder_Timeout b duration w"

fun chain :: "OptionsBuilder \<Rightarrow> builder_call list \<Rightarrow> world \<Rightarrow> (OptionsBuilder \<times> world) outcome" where
  "chain b [] w = Return (b, w)"
| "chain b (c # cs) w =
     (case call b c w of
        Panic \<Rightarrow> Panic
      | Return (b', w') \<Rightarrow> chain b' cs w')"

fun is_CallFormat :: "builder_call \<Rightarrow> bool" where
  "is_CallFormat (CallFormat format) = True"
| "is_CallFormat c = False"

fun is_CallSize :: "builder_call \<Rightarrow> bool" where
  "is_CallSize (CallSize width height) = True"
| "is_CallSize c = False"

text \<open>
  Concrete inputs: a world whose cell \<open>0\<close> holds the default options, a builder and
  a generator pointing to it, and three environments, one whose client answers every
  command with the bytes \<^verbatim>\<open>%PDF\<close>, one whose client fails the navigation, one whose
  client fails the print.
\<close>

definition world0 :: world where
  "world0 = \<lparr>mem = (\<lambda>r. default_record), next_ref = 1, history = []\<rparr>"

definition builder0 :: OptionsBuilder where
  "builder0 = \<lparr>options_b = Some 0\<rparr>"

definition generator0 :: Generator where
  "generator0 = \<lparr>options = Some 0\<rparr>"

definition env_ok :: env where
  "env_ok = \<lparr>PathEscape = (\<lambda>s. s), NewContext = (\<lambda>t h c. Inr [37, 80, 68, 70])\<rparr>"

definition env_navigate_fails :: env where
  "env_navigate_fails = \<lparr>
     PathEscape = (\<lambda>s. s),
     NewContext = (\<lambda>t h c. case c of
                      Navigate u \<Rightarrow> Inl (ClientError ''net::ERR_NAME_NOT_RESOLVED'')
                    | _ \<Rightarrow> Inr [])\<rparr>"

definition env_print_fails :: env where
  "env_print_fails = \<lparr>
     PathEscape = (\<lambda>s. s),
     NewContext = (\<lambda>t h c. case c of
                      PrintToPDF p \<Rightarrow> Inl (ClientError ''context deadline exceeded'')
                    | _ \<Rightarrow> Inr [])\<rparr>"

section \<open>Lemmas\<close>

lemma Generator_FromHTML_conversion:
  "Generator_FromHTML ev g htmlContent w =
     conversion ev g (''data:text/html;charset=utf-8,'' @ PathEscape ev htmlContent)
       ''failed to generate PDF: '' w"
  unfolding Generator_FromHTML_def conversion_def Let_def by (rule refl)

lemma Generator_FromURL_conversion:
  "Generator_FromURL ev g url w = conversion ev g url ''failed to generate PDF from URL: '' w"
  unfolding Generator_FromURL_def conversion_def Let_def by (rule refl)

lemma DoTasks_Prim:
  "DoTasks ctx (map Prim cs @ rest) (l, w) =
     (case issue ctx (history w) cs of
        (Some e, h') \<Rightarrow> Return (Some e, l, w\<lparr>history := h'\<rparr>)
      | (None, h') \<Rightarrow> DoTasks ctx rest (l, w\<lparr>history := h'\<rparr>))"
proof (induction cs arbitrary: w)
  case Nil
  show ?case by simp
next
  case (Cons c cs)
  show ?case
  proof (cases "ctx (history w) c")
    case (Inl e)
    then show ?thesis by (simp add: perform_def)
  next
    case (Inr d)
    then show ?thesis
      using Cons.IH [of "w\<lparr>history := history w @ [c]\<rparr>"]
      by (simp add: perform_def split: prod.splits option.splits)
  qed
qed

lemma DoTasks_append:
  "DoTasks ctx (as @ bs) st =
     (case DoTasks ctx as st of
        Panic \<Rightarrow> Panic
      | Return (Some e, st') \<Rightarrow> Return (Some e, st')
      | Return (None, st') \<Rightarrow> DoTasks ctx bs st')"
proof (induction as arbitrary: st)
  case Nil
  show ?case by (cases st) simp
next
  case (Cons a as)
  show ?case
    by (simp add: Cons.IH split: outcome.splits prod.splits option.splits)
qed

lemma DoTasks_Tasks:
  "DoTasks ctx (Tasks as # rest) st = DoTasks ctx (as @ rest) st"
  by (simp add: DoTasks_append)

lemma waitForConditions_commands:
  assumes "options g = Some r"
  shows "\<exists>a. waitForConditions g w = Return a
           \<and> (\<forall>ctx rest st. DoTasks ctx (a # rest) st
                 = DoTasks ctx (map Prim (wait_commands (mem w r)) @ rest) st)"
  using assms
  by (simp add: waitForConditions_def wait_commands_def Let_def DoTasks_Tasks
      del: Do.simps DoTasks.simps)

lemma generatePDF_eq:
  assumes "options g = Some r"
  shows "generatePDF g ctx w =
     (case ctx (history w) (PrintToPDF (generatePDF_params (mem w r))) of
        Inl e \<Rightarrow> Return ((None, Some (Errorf ''failed to generate PDF: '' e)),
                   w\<lparr>history := history w @ [PrintToPDF (generatePDF_params (mem w r))]\<rparr>)
      | Inr d \<Rightarrow> Return ((Some d, None),
                   w\<lparr>history := history w @ [PrintToPDF (generatePDF_params (mem w r))]\<rparr>))"
  using assms
  by (simp add: generatePDF_def Run_def PrintToPDFParams_Do_def perform_def Let_def
      split: sum.splits)

lemma conversion_issue:
  assumes g: "options g = Some r"
  shows "conversion ev g target msg w =
     (let opt = mem w r;
          ctx = NewContext ev (Timeout opt);
          pr = PrintToPDF (generatePDF_params opt)
      in case issue ctx (history w) ([Navigate target, WaitReady ''body''] @ wait_commands opt) of
           (Some e, h') \<Rightarrow> Return ((None, Some (Errorf msg e)), w\<lparr>history := h'\<rparr>)
         | (None, h') \<Rightarrow>
             (case ctx h' pr of
                Inl e \<Rightarrow> Return ((None, Some (Errorf msg (Errorf ''failed to generate PDF: '' e))),
                           w\<lparr>history := h' @ [pr]\<rparr>)
              | Inr d \<Rightarrow> Return ((Some d, None), w\<lparr>history := h' @ [pr]\<rparr>)))"
proof -
  obtain a :: "(byte list option \<times> error option) Action"
    where a: "waitForConditions g w = Return a"
    and da: "\<And>ctx rest st. DoTasks ctx (a # rest) st
               = DoTasks ctx (map Prim (wait_commands (mem w r)) @ rest) st"
    using waitForConditions_commands [OF g, of w] by blast
  have flat: "DoTasks ctx (Prim c1 # Prim c2 # a # rest) st
                = DoTasks ctx (map Prim ([c1, c2] @ wait_commands (mem w r)) @ rest) st"
    for ctx c1 c2 rest st
  proof -
    have "DoTasks ctx ([Prim c1, Prim c2] @ (a # rest)) st
            = DoTasks ctx ([Prim c1, Prim c2] @ (map Prim (wait_commands (mem w r)) @ rest)) st"
      unfolding DoTasks_append [of ctx "[Prim c1, Prim c2]"] da ..
    then show ?thesis by simp
  qed
  let ?AF = "ActionFunc (\<lambda>ctx ((pdfData, err), w).
                 case generatePDF g ctx w of
                   Panic \<Rightarrow> Panic
                 | Return ((d, e), w') \<Rightarrow> Return (e, (d, e), w'))
               :: (byte list option \<times> error option) Action"
  let ?ctx = "NewContext ev (Timeout (mem w r))"
  let ?pre = "[Navigate target, WaitReady ''body''] @ wait_commands (mem w r)"
  let ?pr = "PrintToPDF (generatePDF_params (mem w r))"
  have run: "DoTasks ?ctx [Prim (Navigate target), Prim (WaitReady ''body''), a, ?AF] ((None, None), w)
      = (case issue ?ctx (history w) ?pre of
           (Some e, h') \<Rightarrow> Return (Some e, (None, None), w\<lparr>history := h'\<rparr>)
         | (None, h') \<Rightarrow> DoTasks ?ctx [?AF] ((None, None), w\<lparr>history := h'\<rparr>))"
    unfolding flat DoTasks_Prim ..
  have af: "DoTasks ?ctx [?AF] ((None, None), w\<lparr>history := h'\<rparr>)
      = (case ?ctx h' ?pr of
           Inl e \<Rightarrow> Return (Some (Errorf ''failed to generate PDF: '' e),
                      (None, Some (Errorf ''failed to generate PDF: '' e)),
                      w\<lparr>history := h' @ [?pr]\<rparr>)
         | Inr d \<Rightarrow> Return (None, (Some d, None), w\<lparr>history := h' @ [?pr]\<rparr>))" for h'
    by (simp add: generatePDF_eq [OF g] split: sum.splits)
  have "conversion ev g target msg w
      = (case DoTasks ?ctx [Prim (Navigate target), Prim (WaitReady ''body''), a, ?AF] ((None, None), w) of
           Panic \<Rightarrow> Panic
         | Return (Some err, (pdfData, err'), w') \<Rightarrow> Return ((None, Some (Errorf msg err)), w')
         | Return (None, (pdfData, err'), w') \<Rightarrow> Return ((pdfData, None), w'))"
    unfolding conversion_def Run_def Let_def by (simp only: g a option.case outcome.case)
  also have "\<dots> = (case issue ?ctx (history w) ?pre of
           (Some e, h') \<Rightarrow> Return ((None, Some (Errorf msg e)), w\<lparr>history := h'\<rparr>)
         | (None, h') \<Rightarrow>
             (case ?ctx h' ?pr of
                Inl e \<Rightarrow> Return ((None, Some (Errorf msg (Errorf ''failed to generate PDF: '' e))),
                           w\<lparr>history := h' @ [?pr]\<rparr>)
              | Inr d \<Rightarrow> Return ((Some d, None), w\<lparr>history := h' @ [?pr]\<rparr>)))"
  proof -
    obtain eo h' where iss: "issue ?ctx (history w) ?pre = (eo, h')"
      by (cases "issue ?ctx (history w) ?pre") blast
    show ?thesis
    proof (cases eo)
      case (Some e)
      show ?thesis unfolding run iss Some by simp
    next
      case None
      show ?thesis
      proof (cases "?ctx h' ?pr")
        case (Inl e)
        show ?thesis unfolding run iss None by (simp add: af Inl del: Do.simps DoTasks.simps)
      next
        case (Inr d)
        show ?thesis unfolding run iss None by (simp add: af Inr del: Do.simps DoTasks.simps)
      qed
    qed
  qed
  finally show ?thesis unfolding Let_def .
qed

lemma issue_None:
  "issue ctx h cs = (None, h') \<Longrightarrow>
     h' = h @ cs \<and> (\<forall>j<length cs. \<exists>d. ctx (h @ take j cs) (cs ! j) = Inr d)"
proof (induction cs arbitrary: h)
  case Nil
  then show ?case by simp
next
  case (Cons c cs)
  from Cons.prems obtain d where d: "ctx h c = Inr d"
    and rest: "issue ctx (h @ [c]) cs = (None, h')"
    by (auto split: sum.splits)
  from Cons.IH [OF rest]
  have h': "h' = (h @ [c]) @ cs"
    and ok: "\<And>j. j < length cs \<Longrightarrow> \<exists>d. ctx ((h @ [c]) @ take j cs) (cs ! j) = Inr d"
    by blast+
  have "\<exists>d. ctx (h @ take j (c # cs)) ((c # cs) ! j) = Inr d" if "j < length (c # cs)" for j
  proof (cases j)
    case 0
    with d show ?thesis by simp
  next
    case (Suc i)
    with that ok [of i] show ?thesis by simp
  qed
  with h' show ?case by simp
qed

lemma issue_Some:
  "issue ctx h cs = (Some e, h') \<Longrightarrow>
     \<exists>k<length cs. h' = h @ take (Suc k) cs \<and> ctx (h @ take k cs) (cs ! k) = Inl e
        \<and> (\<forall>j<k. \<exists>d. ctx (h @ take j cs) (cs ! j) = Inr d)"
proof (induction cs arbitrary: h)
  case Nil
  then show ?case by simp
next
  case (Cons c cs)
  show ?case
  proof (cases "ctx h c")
    case (Inl e')
    with Cons.prems have "e' = e" "h' = h @ [c]" by simp_all
    with Inl have "0 < length (c # cs) \<and> h' = h @ take (Suc 0) (c # cs)
        \<and> ctx (h @ take 0 (c # cs)) ((c # cs) ! 0) = Inl e
        \<and> (\<forall>j<0. \<exists>d. ctx (h @ take j (c # cs)) ((c # cs) ! j) = Inr d)"
      by simp
    then show ?thesis by blast
  next
    case (Inr d)
    with Cons.prems have rest: "issue ctx (h @ [c]) cs = (Some e, h')" by simp
    from Cons.IH [OF rest] obtain k where k: "k < length cs"
      and h': "h' = (h @ [c]) @ take (Suc k) cs"
      and bad: "ctx ((h @ [c]) @ take k cs) (cs ! k) = Inl e"
      and ok: "\<And>j. j < k \<Longrightarrow> \<exists>d. ctx ((h @ [c]) @ take j cs) (cs ! j) = Inr d"
      by blast
    have "\<exists>d. ctx (h @ take j (c # cs)) ((c # cs) ! j) = Inr d" if "j < Suc k" for j
    proof (cases j)
      case 0
      with Inr show ?thesis by simp
    next
      case (Suc i)
      with that ok [of i] show ?thesis by simp
    qed
    with k h' bad have "Suc k < length (c # cs) \<and> h' = h @ take (Suc (Suc k)) (c # cs)
        \<and> ctx (h @ take (Suc k) (c # cs)) ((c # cs) ! Suc k) = Inl e
        \<and> (\<forall>j<Suc k. \<exists>d. ctx (h @ take j (c # cs)) ((c # cs) ! j) = Inr d)"
      by simp
    then show ?thesis by blast
  qed
qed

text \<open>
  One conversion, in full: the commands \<open>0\<close> to \<open>k\<close> of the fixed sequence are
  performed, all before the last one succeed, and the result is decided by the answer
  to the last one.
\<close>

lemma conversion_cases:
  assumes g: "options g = Some r"
  shows "\<exists>k res. k < length (fixed_sequence (mem w r) target)
     \<and> conversion ev g target msg w
         = Return (res, w\<lparr>history := history w @ take (Suc k) (fixed_sequence (mem w r) target)\<rparr>)
     \<and> (\<forall>j<k. \<exists>d. NewContext ev (Timeout (mem w r))
                      (history w @ take j (fixed_sequence (mem w r) target))
                      (fixed_sequence (mem w r) target ! j) = Inr d)
     \<and> (case NewContext ev (Timeout (mem w r))
                (history w @ take k (fixed_sequence (mem w r) target))
                (fixed_sequence (mem w r) target ! k) of
          Inl e \<Rightarrow> res = (None, Some (if Suc k = length (fixed_sequence (mem w r) target)
                                      then Errorf msg (Errorf ''failed to generate PDF: '' e)
                                      else Errorf msg e))
        | Inr d \<Rightarrow> Suc k = length (fixed_sequence (mem w r) target) \<and> res = (Some d, None))"
proof -
  define ctx where "ctx = NewContext ev (Timeout (mem w r))"
  define pre where "pre = [Navigate target, WaitReady ''body''] @ wait_commands (mem w r)"
  define pr where "pr = PrintToPDF (generatePDF_params (mem w r))"
  define fixed where "fixed = fixed_sequence (mem w r) target"
  define h where "h = history w"
  have fixed: "fixed = pre @ [pr]"
    by (simp add: fixed_def fixed_sequence_def pre_def pr_def)
  have conv: "conversion ev g target msg w =
     (case issue ctx h pre of
        (Some e, h') \<Rightarrow> Return ((None, Some (Errorf msg e)), w\<lparr>history := h'\<rparr>)
      | (None, h') \<Rightarrow>
          (case ctx h' pr of
             Inl e \<Rightarrow> Return ((None, Some (Errorf msg (Errorf ''failed to generate PDF: '' e))),
                        w\<lparr>history := h' @ [pr]\<rparr>)
           | Inr d \<Rightarrow> Return ((Some d, None), w\<lparr>history := h' @ [pr]\<rparr>)))"
    unfolding conversion_issue [OF g] Let_def ctx_def pre_def pr_def h_def ..
  have t1: "take j fixed = take j pre" if "j \<le> length pre" for j
    using that unfolding fixed by simp
  have t2: "fixed ! i = pre ! i" if "i < length pre" for i
    using that unfolding fixed by (simp add: nth_append)
  have len: "length fixed = Suc (length pre)" unfolding fixed by simp
  have last: "fixed ! length pre = pr" "take (length pre) fixed = pre"
    "take (Suc (length pre)) fixed = pre @ [pr]"
    unfolding fixed by simp_all
  obtain eo h' where iss: "issue ctx h pre = (eo, h')"
    by (cases "issue ctx h pre") blast
  have "\<exists>k res. k < length fixed
     \<and> conversion ev g target msg w = Return (res, w\<lparr>history := h @ take (Suc k) fixed\<rparr>)
     \<and> (\<forall>j<k. \<exists>d. ctx (h @ take j fixed) (fixed ! j) = Inr d)
     \<and> (case ctx (h @ take k fixed) (fixed ! k) of
          Inl e \<Rightarrow> res = (None, Some (if Suc k = length fixed
                                      then Errorf msg (Errorf ''failed to generate PDF: '' e)
                                      else Errorf msg e))
        | Inr d \<Rightarrow> Suc k = length fixed \<and> res = (Some d, None))"
  proof (cases eo)
    case (Some e)
    from issue_Some [OF iss [unfolded Some]] obtain k where k: "k < length pre"
      and h': "h' = h @ take (Suc k) pre"
      and bad: "ctx (h @ take k pre) (pre ! k) = Inl e"
      and ok: "\<And>j. j < k \<Longrightarrow> \<exists>d. ctx (h @ take j pre) (pre ! j) = Inr d"
      by blast
    have 1: "k < length fixed" using k len by simp
    have 2: "conversion ev g target msg w
        = Return ((None, Some (Errorf msg e)), w\<lparr>history := h @ take (Suc k) fixed\<rparr>)"
      unfolding conv iss Some using h' k t1 [of "Suc k"] by simp
    have 3: "\<forall>j<k. \<exists>d. ctx (h @ take j fixed) (fixed ! j) = Inr d"
      using ok k t1 t2 by simp
    have 4: "ctx (h @ take k fixed) (fixed ! k) = Inl e"
      using bad k t1 t2 by simp
    have 5: "Suc k \<noteq> length fixed" using k len by simp
    show ?thesis
      apply (rule exI [of _ k])
      apply (rule exI [of _ "(None, Some (Errorf msg e))"])
      using 1 2 3 4 5 by simp
  next
    case None
    from issue_None [OF iss [unfolded None]] have h': "h' = h @ pre"
      and ok: "\<And>j. j < length pre \<Longrightarrow> \<exists>d. ctx (h @ take j pre) (pre ! j) = Inr d"
      by blast+
    have 3: "\<forall>j<length pre. \<exists>d. ctx (h @ take j fixed) (fixed ! j) = Inr d"
      using ok t1 t2 by simp
    show ?thesis
    proof (cases "ctx (h @ pre) pr")
      case (Inl e)
      have c: "conversion ev g target msg w
          = Return ((None, Some (Errorf msg (Errorf ''failed to generate PDF: '' e))),
                    w\<lparr>history := h @ take (Suc (length pre)) fixed\<rparr>)"
        unfolding conv iss None h' last using Inl by simp
      show ?thesis
        apply (rule exI [of _ "length pre"])
        apply (rule exI [of _ "(None, Some (Errorf msg (Errorf ''failed to generate PDF: '' e)))"])
        using c 3 Inl unfolding last(1,2) len by simp
    next
      case (Inr d)
      have c: "conversion ev g target msg w
          = Return ((Some d, None), w\<lparr>history := h @ take (Suc (length pre)) fixed\<rparr>)"
        unfolding conv iss None h' last using Inr by simp
      show ?thesis
        apply (rule exI [of _ "length pre"])
        apply (rule exI [of _ "(Some d, None)"])
        using c 3 Inr unfolding last(1,2) len by simp
    qed
  qed
  then show ?thesis unfolding ctx_def fixed_def h_def .
qed

lemma PrintToPDF_in_fixed_sequence:
  "PrintToPDF p \<in> set (fixed_sequence opt target) \<Longrightarrow> p = generatePDF_params opt"
  by (auto simp add: fixed_sequence_def wait_commands_def split: if_splits)

lemma assign_Some:
  "options_b b = Some r \<Longrightarrow> assign b f w = Return (b, w\<lparr>mem := (mem w)(r := f (mem w r))\<rparr>)"
  by (simp add: assign_def)

lemma call_keeps:
  assumes b: "options_b b = Some r"
  shows "\<exists>w'. call b c w = Return (b, w') \<and> history w' = history w \<and> next_ref w' = next_ref w
           \<and> (\<not> is_CallFormat c \<longrightarrow> Format (mem w r) = '''' \<longrightarrow> Format (mem w' r) = '''')
           \<and> (\<not> is_CallSize c \<longrightarrow> Width (mem w' r) = Width (mem w r) \<and> Height (mem w' r) = Height (mem w r))"
  by (cases c)
    (simp_all add: assign_Some [OF b] OptionsBuilder_Format_def OptionsBuilder_Size_def
      OptionsBuilder_Margins_def OptionsBuilder_Landscape_def OptionsBuilder_Portrait_def
      OptionsBuilder_Scale_def OptionsBuilder_PrintBackground_def OptionsBuilder_HeaderFooter_def
      OptionsBuilder_WaitFor_def OptionsBuilder_WaitTime_def OptionsBuilder_Timeout_def)

lemma chain_keeps:
  assumes b: "options_b b = Some r"
  shows "\<exists>w'. chain b cs w = Return (b, w') \<and> history w' = history w \<and> next_ref w' = next_ref w
           \<and> ((\<forall>c\<in>set cs. \<not> is_CallFormat c) \<longrightarrow> Format (mem w r) = '''' \<longrightarrow> Format (mem w' r) = '''')
           \<and> ((\<forall>c\<in>set cs. \<not> is_CallSize c) \<longrightarrow>
                 Width (mem w' r) = Width (mem w r) \<and> Height (mem w' r) = Height (mem w r))"
proof (induction cs arbitrary: w)
  case Nil
  show ?case by simp
next
  case (Cons c cs)
  from call_keeps [OF b, of c w] obtain w1 where 1: "call b c w = Return (b, w1)"
    and h1: "history w1 = history w" "next_ref w1 = next_ref w"
    and f1: "\<not> is_CallFormat c \<Longrightarrow> Format (mem w r) = '''' \<Longrightarrow> Format (mem w1 r) = ''''"
    and s1: "\<not> is_CallSize c \<Longrightarrow> Width (mem w1 r) = Width (mem w r) \<and> Height (mem w1 r) = Height (mem w r)"
    by blast
  from Cons.IH [of w1] obtain w2 where 2: "chain b cs w1 = Return (b, w2)"
    and h2: "history w2 = history w1" "next_ref w2 = next_ref w1"
    and f2: "\<forall>c\<in>set cs. \<not> is_CallFormat c \<Longrightarrow> Format (mem w1 r) = '''' \<Longrightarrow> Format (mem w2 r) = ''''"
    and s2: "\<forall>c\<in>set cs. \<not> is_CallSize c \<Longrightarrow>
               Width (mem w2 r) = Width (mem w1 r) \<and> Height (mem w2 r) = Height (mem w1 r)"
    by blast
  have "chain b (c # cs) w = Return (b, w2)" using 1 2 by simp
  moreover have "history w2 = history w" "next_ref w2 = next_ref w" using h1 h2 by simp_all
  moreover have "Format (mem w2 r) = ''''"
    if "\<forall>c\<in>set (c # cs). \<not> is_CallFormat c" "Format (mem w r) = ''''"
    using that f1 f2 by simp
  moreover have "Width (mem w2 r) = Width (mem w r) \<and> Height (mem w2 r) = Height (mem w r)"
    if "\<forall>c\<in>set (c # cs). \<not> is_CallSize c"
    using that s1 s2 by simp
  ultimately show ?case by blast
qed

lemma conversion_nil:
  "options g = None \<Longrightarrow> conversion ev g target msg w = Panic"
  by (simp add: conversion_def)

lemma fixed_sequence_last:
  "fixed_sequence opt target \<noteq> []"
  "last (fixed_sequence opt target) = PrintToPDF (generatePDF_params opt)"
  "Suc k = length (fixed_sequence opt target) \<Longrightarrow>
     take k (fixed_sequence opt target) = butlast (fixed_sequence opt target)
     \<and> fixed_sequence opt target ! k = PrintToPDF (generatePDF_params opt)
     \<and> take (Suc k) (fixed_sequence opt target) = fixed_sequence opt target"
proof -
  show ne: "fixed_sequence opt target \<noteq> []"
    and la: "last (fixed_sequence opt target) = PrintToPDF (generatePDF_params opt)"
    by (simp_all add: fixed_sequence_def)
  assume k: "Suc k = length (fixed_sequence opt target)"
  then have "k = length (fixed_sequence opt target) - 1" by simp
  then show "take k (fixed_sequence opt target) = butlast (fixed_sequence opt target)
     \<and> fixed_sequence opt target ! k = PrintToPDF (generatePDF_params opt)
     \<and> take (Suc k) (fixed_sequence opt target) = fixed_sequence opt target"
    using k ne la by (simp add: butlast_conv_take last_conv_nth)
qed

lemma Errorf_neq: "Errorf msg e \<noteq> e"
  by (induction e) simp_all

lemma Errorf_Errorf_neq: "Errorf msg (Errorf msg' e) \<noteq> e"
proof
  assume "Errorf msg (Errorf msg' e) = e"
  then have "size (Errorf msg (Errorf msg' e)) = size e" by simp
  then show False by simp
qed

section \<open>Claims\<close>

text \<open>
  C1, as stated: every conversion call issues exactly the whole fixed sequence,
  navigate, wait, print. It does not when the client reports an error: with a client
  that fails the navigation, \<^verbatim>\<open>FromHTML\<close> on the default options performs the
  navigation and nothing else, where the fixed sequence has four commands.
\<close>

theorem conversion_stops_at_error_counterexample:
  "history (snd (returned (Generator_FromHTML env_navigate_fails generator0 ''hello'' world0)))
     = [Navigate ''data:text/html;charset=utf-8,hello'']
   \<and> fixed_sequence (mem world0 0) ''data:text/html;charset=utf-8,hello''
     = [Navigate ''data:text/html;charset=utf-8,hello'', WaitReady ''body'', Sleep 2000000000,
        PrintToPDF (generatePDF_params default_record)]
   \<and> history (snd (returned (Generator_FromHTML env_navigate_fails generator0 ''hello'' world0)))
     \<noteq> history world0 @ fixed_sequence (mem world0 0) ''data:text/html;charset=utf-8,hello''"
  by (simp add: Generator_FromHTML_def generator0_def world0_def env_navigate_fails_def
      waitForConditions_def default_record_def Run_def perform_def Second_def Let_def
      fixed_sequence_def wait_commands_def word_sless_alt)

text \<open>
  C1, amended: a conversion call of a generator with an options record performs the
  commands of the fixed sequence (navigate to the target, wait for the body, the
  configured waits, print) in this order, each at most once and no other command,
  and stops after the first command the client answers with an error: the commands
  performed are a non-empty initial part of the sequence, every command before the
  last one performed succeeded, the call returns an error when it stopped early, and
  the whole sequence has been performed whenever the call returns no error.
\<close>

theorem conversion_commands_in_order:
  assumes "options g = Some r"
  shows "(\<exists>k res w'. Generator_FromHTML ev g html w = Return (res, w')
        \<and> k < length (fixed_sequence (mem w r) (''data:text/html;charset=utf-8,'' @ PathEscape ev html))
        \<and> history w' = history w
             @ take (Suc k) (fixed_sequence (mem w r) (''data:text/html;charset=utf-8,'' @ PathEscape ev html))
        \<and> (\<forall>j<k. \<exists>d. NewContext ev (Timeout (mem w r))
               (history w @ take j (fixed_sequence (mem w r) (''data:text/html;charset=utf-8,'' @ PathEscape ev html)))
               (fixed_sequence (mem w r) (''data:text/html;charset=utf-8,'' @ PathEscape ev html) ! j) = Inr d)
        \<and> (Suc k < length (fixed_sequence (mem w r) (''data:text/html;charset=utf-8,'' @ PathEscape ev html)) \<longrightarrow>
             snd res \<noteq> None
             \<and> (\<exists>e. NewContext ev (Timeout (mem w r))
                   (history w @ take k (fixed_sequence (mem w r) (''data:text/html;charset=utf-8,'' @ PathEscape ev html)))
                   (fixed_sequence (mem w r) (''data:text/html;charset=utf-8,'' @ PathEscape ev html) ! k) = Inl e))
        \<and> (snd res = None \<longrightarrow>
             history w' = history w
               @ fixed_sequence (mem w r) (''data:text/html;charset=utf-8,'' @ PathEscape ev html)))
     \<and> (\<exists>k res w'. Generator_FromURL ev g url w = Return (res, w')
        \<and> k < length (fixed_sequence (mem w r) url)
        \<and> history w' = history w @ take (Suc k) (fixed_sequence (mem w r) url)
        \<and> (\<forall>j<k. \<exists>d. NewContext ev (Timeout (mem w r))
               (history w @ take j (fixed_sequence (mem w r) url))
               (fixed_sequence (mem w r) url ! j) = Inr d)
        \<and> (Suc k < length (fixed_sequence (mem w r) url) \<longrightarrow>
             snd res \<noteq> None
             \<and> (\<exists>e. NewContext ev (Timeout (mem w r))
                   (history w @ take k (fixed_sequence (mem w r) url))
                   (fixed_sequence (mem w r) url ! k) = Inl e))
        \<and> (snd res = None \<longrightarrow> history w' = history w @ fixed_sequence (mem w r) url))"
proof -
  have order: "\<exists>k res w'. conversion ev g target msg w = Return (res, w')
        \<and> k < length (fixed_sequence (mem w r) target)
        \<and> history w' = history w @ take (Suc k) (fixed_sequence (mem w r) target)
        \<and> (\<forall>j<k. \<exists>d. NewContext ev (Timeout (mem w r))
               (history w @ take j (fixed_sequence (mem w r) target))
               (fixed_sequence (mem w r) target ! j) = Inr d)
        \<and> (Suc k < length (fixed_sequence (mem w r) target) \<longrightarrow>
             snd res \<noteq> None
             \<and> (\<exists>e. NewContext ev (Timeout (mem w r))
                   (history w @ take k (fixed_sequence (mem w r) target))
                   (fixed_sequence (mem w r) target ! k) = Inl e))
        \<and> (snd res = None \<longrightarrow> history w' = history w @ fixed_sequence (mem w r) target)"
    for target msg
  proof -
    define F where "F = fixed_sequence (mem w r) target"
    define ctx where "ctx = NewContext ev (Timeout (mem w r))"
    from conversion_cases [OF assms, of w target ev msg]
    obtain k res where k: "k < length F"
      and conv: "conversion ev g target msg w = Return (res, w\<lparr>history := history w @ take (Suc k) F\<rparr>)"
      and ok: "\<forall>j<k. \<exists>d. ctx (history w @ take j F) (F ! j) = Inr d"
      and last: "case ctx (history w @ take k F) (F ! k) of
          Inl e \<Rightarrow> res = (None, Some (if Suc k = length F
                                      then Errorf msg (Errorf ''failed to generate PDF: '' e)
                                      else Errorf msg e))
        | Inr d \<Rightarrow> Suc k = length F \<and> res = (Some d, None)"
      unfolding F_def ctx_def by blast
    have early: "snd res \<noteq> None \<and> (\<exists>e. ctx (history w @ take k F) (F ! k) = Inl e)"
      if "Suc k < length F"
      using that last by (cases "ctx (history w @ take k F) (F ! k)") simp_all
    have full: "take (Suc k) F = F" if "snd res = None"
      using that last k by (cases "ctx (history w @ take k F) (F ! k)") simp_all
    show ?thesis
      apply (rule exI [of _ k])
      apply (rule exI [of _ res])
      apply (rule exI [of _ "w\<lparr>history := history w @ take (Suc k) (fixed_sequence (mem w r) target)\<rparr>"])
      using conv k ok early full unfolding F_def ctx_def by simp
  qed
  show ?thesis
    unfolding Generator_FromHTML_conversion Generator_FromURL_conversion
    using order by blast
qed

theorem conversion_commands_in_order_witness:
  "options generator0 = Some 0
   \<and> history (snd (returned (Generator_FromHTML env_ok generator0 ''hello'' world0)))
       = fixed_sequence default_record ''data:text/html;charset=utf-8,hello''
   \<and> history (snd (returned (Generator_FromURL env_print_fails generator0 ''https://example.com'' world0)))
       = [Navigate ''https://example.com'', WaitReady ''body'', Sleep 2000000000,
          PrintToPDF (generatePDF_params default_record)]
   \<and> snd (fst (returned (Generator_FromHTML env_ok generator0 ''hello'' world0))) = None"
proof -
  have h: "options generator0 = Some 0" by (simp add: generator0_def)
  show ?thesis
    using h conversion_commands_in_order
      [OF h, where ev = env_ok and html = "''hello''" and w = world0
         and url = "''https://example.com''"]
      conversion_commands_in_order
      [OF h, where ev = env_print_fails and html = "''hello''" and w = world0
         and url = "''https://example.com''"]
    by (simp add: Generator_FromHTML_def Generator_FromURL_def generator0_def world0_def
        env_ok_def env_print_fails_def waitForConditions_def default_record_def Run_def
        perform_def generatePDF_def PrintToPDFParams_Do_def Second_def Let_def
        fixed_sequence_def wait_commands_def word_sless_alt)
qed

text \<open>
  C2, as stated: the translation from the options to the print request is loss-free,
  every option field being carried into its request field unchanged. It is not: with
  the format A4 the custom width 5 and height 7 are dropped, the paper width of the
  request being 8.27, and two different option records give the same request; the
  wait selector has no request field at all.
\<close>

theorem generatePDF_params_lossy_counterexample:
  "generatePDF_params (default_record\<lparr>Width := 5, Height := 7\<rparr>) = generatePDF_params default_record
   \<and> default_record\<lparr>Width := 5, Height := 7\<rparr> \<noteq> default_record
   \<and> PaperWidth (generatePDF_params (default_record\<lparr>Width := 5, Height := 7\<rparr>)) = 8.27
   \<and> PaperWidth (generatePDF_params (default_record\<lparr>Width := 5, Height := 7\<rparr>))
       \<noteq> Width (default_record\<lparr>Width := 5, Height := 7\<rparr>)
   \<and> generatePDF_params (default_record\<lparr>WaitForSelector := ''#ready''\<rparr>)
       = generatePDF_params default_record"
  by (simp add: generatePDF_params_def default_record_def Let_def)

text \<open>
  C2, amended: \<^verbatim>\<open>generatePDF\<close> copies \<^verbatim>\<open>Landscape\<close>, \<^verbatim>\<open>DisplayHeaderFooter\<close>,
  \<^verbatim>\<open>PrintBackground\<close>, \<^verbatim>\<open>Scale\<close>, the four margins and the header and footer templates
  unchanged into the request fields of the same name. The paper size is derived: the
  dimensions in inches of the named format (A4 8.27 by 11.7, A3 11.7 by 16.5, Letter
  8.5 by 11, Legal 8.5 by 14, Tabloid 11 by 17), zero for any other non-empty format,
  \<^verbatim>\<open>Width\<close> by \<^verbatim>\<open>Height\<close> when the format is empty and both are positive, zero otherwise.
  \<^verbatim>\<open>WaitForSelector\<close>, \<^verbatim>\<open>WaitTime\<close> and \<^verbatim>\<open>Timeout\<close> are not part of the request.
\<close>

theorem generatePDF_params_mapping:
  "generatePDF_params opt = \<lparr>
     Landscape_req = Landscape opt,
     DisplayHeaderFooter_req = DisplayHeaderFooter opt,
     PrintBackground_req = PrintBackground opt,
     Scale_req = Scale opt,
     PaperWidth =
       (if Format opt = ''A4'' then 8.27
        else if Format opt = ''A3'' then 11.7
        else if Format opt = ''Letter'' then 8.5
        else if Format opt = ''Legal'' then 8.5
        else if Format opt = ''Tabloid'' then 11
        else if Format opt = '''' \<and> 0 < Width opt \<and> 0 < Height opt then Width opt
        else 0),
     PaperHeight =
       (if Format opt = ''A4'' then 11.7
        else if Format opt = ''A3'' then 16.5
        else if Format opt = ''Letter'' then 11
        else if Format opt = ''Legal'' then 14
        else if Format opt = ''Tabloid'' then 17
        else if Format opt = '''' \<and> 0 < Width opt \<and> 0 < Height opt then Height opt
        else 0),
     MarginTop_req = MarginTop opt,
     MarginBottom_req = MarginBottom opt,
     MarginLeft_req = MarginLeft opt,
     MarginRight_req = MarginRight opt,
     HeaderTemplate_req = HeaderTemplate opt,
     FooterTemplate_req = FooterTemplate opt\<rparr>
   \<and> generatePDF_params (opt\<lparr>WaitForSelector := selector, WaitTime := t, Timeout := u\<rparr>)
       = generatePDF_params opt"
  by (simp add: generatePDF_params_def Let_def)

theorem generatePDF_params_mapping_witness:
  "generatePDF_params (default_record\<lparr>Format := '''', Width := 5, Height := 7, HeaderTemplate := ''<b>h</b>''\<rparr>)
     = \<lparr>Landscape_req = False, DisplayHeaderFooter_req = False, PrintBackground_req = True,
        Scale_req = 1, PaperWidth = 5, PaperHeight = 7,
        MarginTop_req = 0.4, MarginBottom_req = 0.4, MarginLeft_req = 0.4, MarginRight_req = 0.4,
        HeaderTemplate_req = ''<b>h</b>'', FooterTemplate_req = ''''\<rparr>"
  using generatePDF_params_mapping
    [where opt = "default_record\<lparr>Format := '''', Width := 5, Height := 7, HeaderTemplate := ''<b>h</b>''\<rparr>"]
  by (simp add: default_record_def)

text \<open>
  C3, as stated: an error of the client is returned verbatim, without rewrapping. It
  is not: when the client fails the navigation with an error, \<^verbatim>\<open>FromHTML\<close> returns a
  new error that wraps it and has another message, and when the client fails the
  print, the error returned wraps it twice.
\<close>

theorem error_rewrapped_counterexample:
  "snd (fst (returned (Generator_FromHTML env_navigate_fails generator0 ''hello'' world0)))
     = Some (Errorf ''failed to generate PDF: '' (ClientError ''net::ERR_NAME_NOT_RESOLVED''))
   \<and> snd (fst (returned (Generator_FromHTML env_navigate_fails generator0 ''hello'' world0)))
     \<noteq> Some (ClientError ''net::ERR_NAME_NOT_RESOLVED'')
   \<and> Error (Errorf ''failed to generate PDF: '' (ClientError ''net::ERR_NAME_NOT_RESOLVED''))
     = ''failed to generate PDF: net::ERR_NAME_NOT_RESOLVED''
   \<and> snd (fst (returned (Generator_FromHTML env_print_fails generator0 ''hello'' world0)))
     = Some (Errorf ''failed to generate PDF: ''
              (Errorf ''failed to generate PDF: '' (ClientError ''context deadline exceeded'')))"
  by (simp add: Generator_FromHTML_def generator0_def world0_def env_navigate_fails_def
      env_print_fails_def waitForConditions_def default_record_def Run_def perform_def
      generatePDF_def PrintToPDFParams_Do_def Second_def Let_def)

text \<open>
  C3, amended: when the client answers a command of the conversion with an error,
  \<^verbatim>\<open>FromHTML\<close> and \<^verbatim>\<open>FromURL\<close> perform no further command, neither that one again
  nor a later one, and return no bytes and a new error that wraps the client's
  error (\<^verbatim>\<open>%w\<close>): the message is that of the client prefixed with
  \<^verbatim>\<open>failed to generate PDF: \<close> (for \<^verbatim>\<open>FromURL\<close>, \<^verbatim>\<open>failed to generate PDF from URL: \<close>),
  and, when the failed command is the print, with \<^verbatim>\<open>failed to generate PDF: \<close> once
  more inside; the client's error is the cause at the end of the chain, unchanged.
  The command \<open>k\<close> below is the last one performed: every command before it
  succeeded, so it is the first one the client fails, or else the print at the end
  of the sequence, whose bytes are returned when no command fails.
\<close>

theorem conversion_error_wrapped:
  assumes "options g = Some r"
  shows "(\<exists>k w'. k < length (fixed_sequence (mem w r) (''data:text/html;charset=utf-8,'' @ PathEscape ev html))
        \<and> history w' = history w
             @ take (Suc k) (fixed_sequence (mem w r) (''data:text/html;charset=utf-8,'' @ PathEscape ev html))
        \<and> (\<forall>j<k. \<exists>d. NewContext ev (Timeout (mem w r))
               (history w @ take j (fixed_sequence (mem w r) (''data:text/html;charset=utf-8,'' @ PathEscape ev html)))
               (fixed_sequence (mem w r) (''data:text/html;charset=utf-8,'' @ PathEscape ev html) ! j) = Inr d)
        \<and> (case NewContext ev (Timeout (mem w r))
                   (history w @ take k (fixed_sequence (mem w r) (''data:text/html;charset=utf-8,'' @ PathEscape ev html)))
                   (fixed_sequence (mem w r) (''data:text/html;charset=utf-8,'' @ PathEscape ev html) ! k) of
              Inl e \<Rightarrow>
                (\<exists>e'. Generator_FromHTML ev g html w = Return ((None, Some e'), w')
                   \<and> e' = (if Suc k = length (fixed_sequence (mem w r)
                                              (''data:text/html;charset=utf-8,'' @ PathEscape ev html))
                           then Errorf ''failed to generate PDF: '' (Errorf ''failed to generate PDF: '' e)
                           else Errorf ''failed to generate PDF: '' e)
                   \<and> e' \<noteq> e \<and> root_cause e' = root_cause e
                   \<and> Error e' = (if Suc k = length (fixed_sequence (mem w r)
                                              (''data:text/html;charset=utf-8,'' @ PathEscape ev html))
                                 then ''failed to generate PDF: '' @ ''failed to generate PDF: '' @ Error e
                                 else ''failed to generate PDF: '' @ Error e))
            | Inr d \<Rightarrow>
                Suc k = length (fixed_sequence (mem w r) (''data:text/html;charset=utf-8,'' @ PathEscape ev html))
                \<and> Generator_FromHTML ev g html w = Return ((Some d, None), w')))
     \<and> (\<exists>k w'. k < length (fixed_sequence (mem w r) url)
        \<and> history w' = history w @ take (Suc k) (fixed_sequence (mem w r) url)
        \<and> (\<forall>j<k. \<exists>d. NewContext ev (Timeout (mem w r))
               (history w @ take j (fixed_sequence (mem w r) url))
               (fixed_sequence (mem w r) url ! j) = Inr d)
        \<and> (case NewContext ev (Timeout (mem w r))
                   (history w @ take k (fixed_sequence (mem w r) url))
                   (fixed_sequence (mem w r) url ! k) of
              Inl e \<Rightarrow>
                (\<exists>e'. Generator_FromURL ev g url w = Return ((None, Some e'), w')
                   \<and> e' = (if Suc k = length (fixed_sequence (mem w r) url)
                           then Errorf ''failed to generate PDF from URL: '' (Errorf ''failed to generate PDF: '' e)
                           else Errorf ''failed to generate PDF from URL: '' e)
                   \<and> e' \<noteq> e \<and> root_cause e' = root_cause e
                   \<and> Error e' = (if Suc k = length (fixed_sequence (mem w r) url)
                                 then ''failed to generate PDF from URL: '' @ ''failed to generate PDF: '' @ Error e
                                 else ''failed to generate PDF from URL: '' @ Error e))
            | Inr d \<Rightarrow>
                Suc k = length (fixed_sequence (mem w r) url)
                \<and> Generator_FromURL ev g url w = Return ((Some d, None), w')))"
proof -
  have wrapped: "\<exists>k w'. k < length (fixed_sequence (mem w r) target)
        \<and> history w' = history w @ take (Suc k) (fixed_sequence (mem w r) target)
        \<and> (\<forall>j<k. \<exists>d. NewContext ev (Timeout (mem w r))
               (history w @ take j (fixed_sequence (mem w r) target))
               (fixed_sequence (mem w r) target ! j) = Inr d)
        \<and> (case NewContext ev (Timeout (mem w r))
                   (history w @ take k (fixed_sequence (mem w r) target))
                   (fixed_sequence (mem w r) target ! k) of
              Inl e \<Rightarrow>
                (\<exists>e'. conversion ev g target msg w = Return ((None, Some e'), w')
                   \<and> e' = (if Suc k = length (fixed_sequence (mem w r) target)
                           then Errorf msg (Errorf ''failed to generate PDF: '' e)
                           else Errorf msg e)
                   \<and> e' \<noteq> e \<and> root_cause e' = root_cause e
                   \<and> Error e' = (if Suc k = length (fixed_sequence (mem w r) target)
                                 then msg @ ''failed to generate PDF: '' @ Error e
                                 else msg @ Error e))
            | Inr d \<Rightarrow>
                Suc k = length (fixed_sequence (mem w r) target)
                \<and> conversion ev g target msg w = Return ((Some d, None), w'))"
    for target msg
  proof -
    define F where "F = fixed_sequence (mem w r) target"
    define ctx where "ctx = NewContext ev (Timeout (mem w r))"
    from conversion_cases [OF assms, of w target ev msg]
    obtain k res where k: "k < length F"
      and conv: "conversion ev g target msg w = Return (res, w\<lparr>history := history w @ take (Suc k) F\<rparr>)"
      and ok: "\<forall>j<k. \<exists>d. ctx (history w @ take j F) (F ! j) = Inr d"
      and last: "case ctx (history w @ take k F) (F ! k) of
          Inl e \<Rightarrow> res = (None, Some (if Suc k = length F
                                      then Errorf msg (Errorf ''failed to generate PDF: '' e)
                                      else Errorf msg e))
        | Inr d \<Rightarrow> Suc k = length F \<and> res = (Some d, None)"
      unfolding F_def ctx_def by blast
    have "case ctx (history w @ take k F) (F ! k) of
              Inl e \<Rightarrow>
                (\<exists>e'. conversion ev g target msg w
                         = Return ((None, Some e'), w\<lparr>history := history w @ take (Suc k) F\<rparr>)
                   \<and> e' = (if Suc k = length F
                           then Errorf msg (Errorf ''failed to generate PDF: '' e)
                           else Errorf msg e)
                   \<and> e' \<noteq> e \<and> root_cause e' = root_cause e
                   \<and> Error e' = (if Suc k = length F
                                 then msg @ ''failed to generate PDF: '' @ Error e
                                 else msg @ Error e))
            | Inr d \<Rightarrow>
                Suc k = length F
                \<and> conversion ev g target msg w
                     = Return ((Some d, None), w\<lparr>history := history w @ take (Suc k) F\<rparr>)"
      using last conv
      by (cases "ctx (history w @ take k F) (F ! k)")
        (simp_all add: Errorf_neq Errorf_Errorf_neq del: append.simps)
    then show ?thesis
      apply -
      apply (rule exI [of _ k])
      apply (rule exI [of _ "w\<lparr>history := history w @ take (Suc k) (fixed_sequence (mem w r) target)\<rparr>"])
      using k ok unfolding F_def ctx_def by simp
  qed
  show ?thesis
    unfolding Generator_FromHTML_conversion Generator_FromURL_conversion
    by (rule conjI [OF wrapped wrapped])
qed

theorem conversion_error_wrapped_witness:
  "options generator0 = Some 0
   \<and> Generator_FromHTML env_print_fails generator0 ''hello'' world0
       = Return ((None, Some (Errorf ''failed to generate PDF: ''
                   (Errorf ''failed to generate PDF: '' (ClientError ''context deadline exceeded'')))),
                 snd (returned (Generator_FromHTML env_print_fails generator0 ''hello'' world0)))
   \<and> Generator_FromURL env_navigate_fails generator0 ''https://example.invalid'' world0
       = Return ((None, Some (Errorf ''failed to generate PDF from URL: ''
                   (ClientError ''net::ERR_NAME_NOT_RESOLVED''))),
                 snd (returned (Generator_FromURL env_navigate_fails generator0 ''https://example.invalid'' world0)))
   \<and> root_cause (Errorf ''failed to generate PDF: ''
         (Errorf ''failed to generate PDF: '' (ClientError ''context deadline exceeded'')))
       = ClientError ''context deadline exceeded''"
proof -
  have h: "options generator0 = Some 0" by (simp add: generator0_def)
  show ?thesis
    using h conversion_error_wrapped
      [OF h, where ev = env_print_fails and html = "''hello''" and w = world0
         and url = "''https://example.invalid''"]
      conversion_error_wrapped
      [OF h, where ev = env_navigate_fails and html = "''hello''" and w = world0
         and url = "''https://example.invalid''"]
    by (simp add: Generator_FromHTML_def Generator_FromURL_def generator0_def world0_def
        env_navigate_fails_def env_print_fails_def waitForConditions_def default_record_def
        Run_def perform_def generatePDF_def PrintToPDFParams_Do_def Second_def Let_def)
qed

text \<open>
  C4. For a generator with an options record, \<^verbatim>\<open>FromHTML\<close> and \<^verbatim>\<open>FromURL\<close> return
  either bytes and no error, the bytes being those the client answered the print
  command with after the whole sequence of commands, or no bytes (a nil slice) and an
  error; never both, never neither.
\<close>

theorem conversion_bytes_or_error:
  assumes "options g = Some r"
  shows "((\<exists>d w'. Generator_FromHTML ev g html w = Return ((Some d, None), w')
             \<and> NewContext ev (Timeout (mem w r))
                  (history w @ butlast (fixed_sequence (mem w r)
                     (''data:text/html;charset=utf-8,'' @ PathEscape ev html)))
                  (PrintToPDF (generatePDF_params (mem w r))) = Inr d)
          \<or> (\<exists>e w'. Generator_FromHTML ev g html w = Return ((None, Some e), w')))
       \<and> ((\<exists>d w'. Generator_FromURL ev g url w = Return ((Some d, None), w')
             \<and> NewContext ev (Timeout (mem w r))
                  (history w @ butlast (fixed_sequence (mem w r) url))
                  (PrintToPDF (generatePDF_params (mem w r))) = Inr d)
          \<or> (\<exists>e w'. Generator_FromURL ev g url w = Return ((None, Some e), w')))"
proof -
  have either: "(\<exists>d w'. conversion ev g target msg w = Return ((Some d, None), w')
             \<and> NewContext ev (Timeout (mem w r))
                  (history w @ butlast (fixed_sequence (mem w r) target))
                  (PrintToPDF (generatePDF_params (mem w r))) = Inr d)
          \<or> (\<exists>e w'. conversion ev g target msg w = Return ((None, Some e), w'))" for target msg
  proof -
    let ?fixed = "fixed_sequence (mem w r) target"
    let ?ctx = "NewContext ev (Timeout (mem w r))"
    from conversion_cases [OF assms, of w target ev msg]
    obtain k res where conv: "conversion ev g target msg w
          = Return (res, w\<lparr>history := history w @ take (Suc k) ?fixed\<rparr>)"
      and last: "case ?ctx (history w @ take k ?fixed) (?fixed ! k) of
          Inl e \<Rightarrow> res = (None, Some (if Suc k = length ?fixed
                                      then Errorf msg (Errorf ''failed to generate PDF: '' e)
                                      else Errorf msg e))
        | Inr d \<Rightarrow> Suc k = length ?fixed \<and> res = (Some d, None)"
      by blast
    show ?thesis
    proof (cases "?ctx (history w @ take k ?fixed) (?fixed ! k)")
      case (Inl e)
      with last conv show ?thesis by simp
    next
      case (Inr d)
      with last have k: "Suc k = length ?fixed" and res: "res = (Some d, None)" by simp_all
      from Inr fixed_sequence_last(3) [OF k]
      have "?ctx (history w @ butlast ?fixed) (PrintToPDF (generatePDF_params (mem w r))) = Inr d"
        by simp
      with conv res show ?thesis by blast
    qed
  qed
  show ?thesis
    unfolding Generator_FromHTML_conversion Generator_FromURL_conversion
    using either by blast
qed

theorem conversion_bytes_or_error_witness:
  "options generator0 = Some 0
   \<and> Generator_FromHTML env_ok generator0 ''hello'' world0
       = Return ((Some [37, 80, 68, 70], None),
                 snd (returned (Generator_FromHTML env_ok generator0 ''hello'' world0)))
   \<and> Generator_FromURL env_navigate_fails generator0 ''https://example.invalid'' world0
       = Return ((None, Some (Errorf ''failed to generate PDF from URL: ''
                               (ClientError ''net::ERR_NAME_NOT_RESOLVED''))),
                 snd (returned (Generator_FromURL env_navigate_fails generator0 ''https://example.invalid'' world0)))"
proof -
  have h: "options generator0 = Some 0" by (simp add: generator0_def)
  have 1: "Generator_FromHTML env_ok generator0 ''hello'' world0
       = Return ((Some [37, 80, 68, 70], None),
                 snd (returned (Generator_FromHTML env_ok generator0 ''hello'' world0)))"
    by (simp add: Generator_FromHTML_def generator0_def world0_def env_ok_def
        waitForConditions_def default_record_def Run_def perform_def generatePDF_def
        PrintToPDFParams_Do_def Second_def Let_def)
  have 2: "Generator_FromURL env_navigate_fails generator0 ''https://example.invalid'' world0
       = Return ((None, Some (Errorf ''failed to generate PDF from URL: ''
                               (ClientError ''net::ERR_NAME_NOT_RESOLVED''))),
                 snd (returned (Generator_FromURL env_navigate_fails generator0 ''https://example.invalid'' world0)))"
    by (simp add: Generator_FromURL_def generator0_def world0_def env_navigate_fails_def
        waitForConditions_def default_record_def Run_def perform_def Second_def Let_def)
  show ?thesis
    using h 1 2
      conversion_bytes_or_error
      [OF h, where ev = env_ok and html = "''hello''" and w = world0
         and url = "''https://example.invalid''"]
      conversion_bytes_or_error
      [OF h, where ev = env_navigate_fails and html = "''hello''" and w = world0
         and url = "''https://example.invalid''"]
    by blast
qed

text \<open>
  C5. A conversion call only reads the options: whatever \<^verbatim>\<open>FromHTML\<close> or \<^verbatim>\<open>FromURL\<close>
  returns, bytes or an error, every options record in the store, the one of the
  generator among them, is the same after the call as before, and no record has been
  allocated. A generator that has an options record always returns.
\<close>

theorem conversion_reads_only:
  "(Generator_FromHTML ev g html w = Return (res, w') \<longrightarrow>
      mem w' = mem w \<and> next_ref w' = next_ref w)
   \<and> (Generator_FromURL ev g url w = Return (res, w') \<longrightarrow>
      mem w' = mem w \<and> next_ref w' = next_ref w)
   \<and> (options g = Some r \<longrightarrow>
      (\<exists>res1 w1. Generator_FromHTML ev g html w = Return (res1, w1) \<and> mem w1 r = mem w r)
      \<and> (\<exists>res2 w2. Generator_FromURL ev g url w = Return (res2, w2) \<and> mem w2 r = mem w r))"
proof -
  have frame: "mem w' = mem w \<and> next_ref w' = next_ref w"
    if "conversion ev g target msg w = Return (res, w')" for target msg
  proof (cases "options g")
    case None
    with that show ?thesis by (simp add: conversion_nil)
  next
    case (Some r)
    from conversion_cases [OF Some, of w target ev msg] that show ?thesis by auto
  qed
  have returns: "\<exists>res1 w1. conversion ev g target msg w = Return (res1, w1) \<and> mem w1 r = mem w r"
    if "options g = Some r" for target msg
    using conversion_cases [OF that, of w target ev msg] by auto
  show ?thesis
    unfolding Generator_FromHTML_conversion Generator_FromURL_conversion
    using frame returns by blast
qed

theorem conversion_reads_only_witness:
  "Generator_FromHTML env_print_fails generator0 ''hello'' world0
     = Return (returned (Generator_FromHTML env_print_fails generator0 ''hello'' world0))
   \<and> mem (snd (returned (Generator_FromHTML env_print_fails generator0 ''hello'' world0))) = mem world0
   \<and> next_ref (snd (returned (Generator_FromHTML env_print_fails generator0 ''hello'' world0))) = next_ref world0
   \<and> Generator_FromURL env_ok generator0 ''https://example.com'' world0
     = Return (returned (Generator_FromURL env_ok generator0 ''https://example.com'' world0))
   \<and> mem (snd (returned (Generator_FromURL env_ok generator0 ''https://example.com'' world0))) = mem world0
   \<and> options generator0 = Some 0"
proof -
  have 1: "Generator_FromHTML env_print_fails generator0 ''hello'' world0
     = Return (fst (returned (Generator_FromHTML env_print_fails generator0 ''hello'' world0)),
               snd (returned (Generator_FromHTML env_print_fails generator0 ''hello'' world0)))"
    by (simp add: Generator_FromHTML_def generator0_def world0_def env_print_fails_def
        waitForConditions_def default_record_def Run_def perform_def generatePDF_def
        PrintToPDFParams_Do_def Second_def Let_def)
  have 2: "Generator_FromURL env_ok generator0 ''https://example.com'' world0
     = Return (fst (returned (Generator_FromURL env_ok generator0 ''https://example.com'' world0)),
               snd (returned (Generator_FromURL env_ok generator0 ''https://example.com'' world0)))"
    by (simp add: Generator_FromURL_def generator0_def world0_def env_ok_def
        waitForConditions_def default_record_def Run_def perform_def generatePDF_def
        PrintToPDFParams_Do_def Second_def Let_def)
  have 3: "options generator0 = Some 0" by (simp add: generator0_def)
  from conversion_reads_only
    [where ev = env_print_fails and g = generator0 and html = "''hello''" and w = world0
       and res = "fst (returned (Generator_FromHTML env_print_fails generator0 ''hello'' world0))"
       and w' = "snd (returned (Generator_FromHTML env_print_fails generator0 ''hello'' world0))"]
  have a: "mem (snd (returned (Generator_FromHTML env_print_fails generator0 ''hello'' world0))) = mem world0"
    "next_ref (snd (returned (Generator_FromHTML env_print_fails generator0 ''hello'' world0))) = next_ref world0"
    using 1 by blast+
  from conversion_reads_only
    [where ev = env_ok and g = generator0 and url = "''https://example.com''" and w = world0
       and res = "fst (returned (Generator_FromURL env_ok generator0 ''https://example.com'' world0))"
       and w' = "snd (returned (Generator_FromURL env_ok generator0 ''https://example.com'' world0))"]
  have b: "mem (snd (returned (Generator_FromURL env_ok generator0 ''https://example.com'' world0))) = mem world0"
    using 2 by blast
  show ?thesis using 1 2 3 a b by simp
qed

text \<open>
  C6. On a builder whose options pointer refers to a record, every setter returns the
  same builder and changes that record alone, in the fields of the parameter the
  method names: \<^verbatim>\<open>Format\<close> the format; \<^verbatim>\<open>Size\<close> the width and the height (and, the
  size being custom, the format, which it clears); \<^verbatim>\<open>Margins\<close> the four margins;
  \<^verbatim>\<open>Landscape\<close> and \<^verbatim>\<open>Portrait\<close> the orientation; \<^verbatim>\<open>Scale\<close> the scale;
  \<^verbatim>\<open>PrintBackground\<close> the background flag; \<^verbatim>\<open>HeaderFooter\<close> the two templates (and
  the flag that displays them); \<^verbatim>\<open>WaitFor\<close> the selector; \<^verbatim>\<open>WaitTime\<close> the wait time;
  \<^verbatim>\<open>Timeout\<close> the timeout. Every other field, every other record, and the history
  of commands stay as they were.
\<close>

theorem OptionsBuilder_setters_frame:
  assumes "options_b b = Some r"
  shows "OptionsBuilder_Format b format w
           = Return (b, w\<lparr>mem := (mem w)(r := (mem w r)\<lparr>Format := format\<rparr>)\<rparr>)
    \<and> OptionsBuilder_Size b width height w
           = Return (b, w\<lparr>mem := (mem w)(r := (mem w r)\<lparr>Width := width, Height := height, Format := ''''\<rparr>)\<rparr>)
    \<and> OptionsBuilder_Margins b top' bottom' left' right' w
           = Return (b, w\<lparr>mem := (mem w)(r := (mem w r)\<lparr>MarginTop := top', MarginBottom := bottom',
                                                         MarginLeft := left', MarginRight := right'\<rparr>)\<rparr>)
    \<and> OptionsBuilder_Landscape b w
           = Return (b, w\<lparr>mem := (mem w)(r := (mem w r)\<lparr>Landscape := True\<rparr>)\<rparr>)
    \<and> OptionsBuilder_Portrait b w
           = Return (b, w\<lparr>mem := (mem w)(r := (mem w r)\<lparr>Landscape := False\<rparr>)\<rparr>)
    \<and> OptionsBuilder_Scale b scale w
           = Return (b, w\<lparr>mem := (mem w)(r := (mem w r)\<lparr>Scale := scale\<rparr>)\<rparr>)
    \<and> OptionsBuilder_PrintBackground b enable w
           = Return (b, w\<lparr>mem := (mem w)(r := (mem w r)\<lparr>PrintBackground := enable\<rparr>)\<rparr>)
    \<and> OptionsBuilder_HeaderFooter b header footer w
           = Return (b, w\<lparr>mem := (mem w)(r := (mem w r)\<lparr>DisplayHeaderFooter := True,
                                                         HeaderTemplate := header, FooterTemplate := footer\<rparr>)\<rparr>)
    \<and> OptionsBuilder_WaitFor b selector w
           = Return (b, w\<lparr>mem := (mem w)(r := (mem w r)\<lparr>WaitForSelector := selector\<rparr>)\<rparr>)
    \<and> OptionsBuilder_WaitTime b duration w
           = Return (b, w\<lparr>mem := (mem w)(r := (mem w r)\<lparr>WaitTime := duration\<rparr>)\<rparr>)
    \<and> OptionsBuilder_Timeout b duration w
           = Return (b, w\<lparr>mem := (mem w)(r := (mem w r)\<lparr>Timeout := duration\<rparr>)\<rparr>)"
proof -
  have a: "assign b f w = Return (b, w\<lparr>mem := (mem w)(r := f (mem w r))\<rparr>)" for f
    using assms by (simp add: assign_def)
  have "OptionsBuilder_Format b format w
           = Return (b, w\<lparr>mem := (mem w)(r := (mem w r)\<lparr>Format := format\<rparr>)\<rparr>)"
    by (simp add: OptionsBuilder_Format_def a)
  moreover have "OptionsBuilder_Size b width height w
           = Return (b, w\<lparr>mem := (mem w)(r := (mem w r)\<lparr>Width := width, Height := height, Format := ''''\<rparr>)\<rparr>)"
    by (simp add: OptionsBuilder_Size_def a)
  moreover have "OptionsBuilder_Margins b top' bottom' left' right' w
           = Return (b, w\<lparr>mem := (mem w)(r := (mem w r)\<lparr>MarginTop := top', MarginBottom := bottom',
                                                         MarginLeft := left', MarginRight := right'\<rparr>)\<rparr>)"
    by (simp add: OptionsBuilder_Margins_def a)
  moreover have "OptionsBuilder_Landscape b w
           = Return (b, w\<lparr>mem := (mem w)(r := (mem w r)\<lparr>Landscape := True\<rparr>)\<rparr>)"
    by (simp add: OptionsBuilder_Landscape_def a)
  moreover have "OptionsBuilder_Portrait b w
           = Return (b, w\<lparr>mem := (mem w)(r := (mem w r)\<lparr>Landscape := False\<rparr>)\<rparr>)"
    by (simp add: OptionsBuilder_Portrait_def a)
  moreover have "OptionsBuilder_Scale b scale w
           = Return (b, w\<lparr>mem := (mem w)(r := (mem w r)\<lparr>Scale := scale\<rparr>)\<rparr>)"
    by (simp add: OptionsBuilder_Scale_def a)
  moreover have "OptionsBuilder_PrintBackground b enable w
           = Return (b, w\<lparr>mem := (mem w)(r := (mem w r)\<lparr>PrintBackground := enable\<rparr>)\<rparr>)"
    by (simp add: OptionsBuilder_PrintBackground_def a)
  moreover have "OptionsBuilder_HeaderFooter b header footer w
           = Return (b, w\<lparr>mem := (mem w)(r := (mem w r)\<lparr>DisplayHeaderFooter := True,
                                                         HeaderTemplate := header, FooterTemplate := footer\<rparr>)\<rparr>)"
    by (simp add: OptionsBuilder_HeaderFooter_def a)
  moreover have "OptionsBuilder_WaitFor b selector w
           = Return (b, w\<lparr>mem := (mem w)(r := (mem w r)\<lparr>WaitForSelector := selector\<rparr>)\<rparr>)"
    by (simp add: OptionsBuilder_WaitFor_def a)
  moreover have "OptionsBuilder_WaitTime b duration w
           = Return (b, w\<lparr>mem := (mem w)(r := (mem w r)\<lparr>WaitTime := duration\<rparr>)\<rparr>)"
    by (simp add: OptionsBuilder_WaitTime_def a)
  moreover have "OptionsBuilder_Timeout b duration w
           = Return (b, w\<lparr>mem := (mem w)(r := (mem w r)\<lparr>Timeout := duration\<rparr>)\<rparr>)"
    by (simp add: OptionsBuilder_Timeout_def a)
  ultimately show ?thesis by (intro conjI)
qed

theorem OptionsBuilder_setters_frame_witness:
  "options_b builder0 = Some 0
   \<and> returned (OptionsBuilder_Scale builder0 0.8 world0)
       = (builder0, world0\<lparr>mem := (mem world0)(0 := default_record\<lparr>Scale := 0.8\<rparr>)\<rparr>)
   \<and> returned (OptionsBuilder_HeaderFooter builder0 ''<b>h</b>'' ''<i>f</i>'' world0)
       = (builder0, world0\<lparr>mem := (mem world0)(0 := default_record\<lparr>DisplayHeaderFooter := True,
             HeaderTemplate := ''<b>h</b>'', FooterTemplate := ''<i>f</i>''\<rparr>)\<rparr>)
   \<and> Format (mem (snd (returned (OptionsBuilder_Size builder0 5 7 world0))) 0) = ''''
   \<and> Scale (mem (snd (returned (OptionsBuilder_Size builder0 5 7 world0))) 0) = 1
   \<and> mem (snd (returned (OptionsBuilder_Size builder0 5 7 world0))) 1 = default_record"
proof -
  have h: "options_b builder0 = Some 0" by (simp add: builder0_def)
  show ?thesis
    using h OptionsBuilder_setters_frame
      [OF h, where w = world0 and scale = "0.8" and header = "''<b>h</b>''" and footer = "''<i>f</i>''"
         and width = 5 and height = 7]
    by (simp add: world0_def default_record_def)
qed

text \<open>
  C7. The convenience function \<^verbatim>\<open>FromHTML(html)\<close> is
  \<^verbatim>\<open>NewGenerator(DefaultOptions()).FromHTML(html)\<close> and \<^verbatim>\<open>FromURL(url)\<close> is
  \<^verbatim>\<open>NewGenerator(DefaultOptions()).FromURL(url)\<close>; on a builder, \<^verbatim>\<open>Generate(html)\<close> is
  \<^verbatim>\<open>Build().FromHTML(html)\<close> and \<^verbatim>\<open>GenerateFromURL(url)\<close> is \<^verbatim>\<open>Build().FromURL(url)\<close>:
  the same result and the same world after the call.
\<close>

theorem convenience_functions_equal:
  "FromHTML ev html w
     = Generator_FromHTML ev
         (fst (NewGenerator (Some (fst (DefaultOptions w))) (snd (DefaultOptions w)))) html
         (snd (NewGenerator (Some (fst (DefaultOptions w))) (snd (DefaultOptions w))))
   \<and> FromURL ev url w
     = Generator_FromURL ev
         (fst (NewGenerator (Some (fst (DefaultOptions w))) (snd (DefaultOptions w)))) url
         (snd (NewGenerator (Some (fst (DefaultOptions w))) (snd (DefaultOptions w))))
   \<and> Generate ev b html w = Generator_FromHTML ev (fst (Build b w)) html (snd (Build b w))
   \<and> GenerateFromURL ev b url w = Generator_FromURL ev (fst (Build b w)) url (snd (Build b w))"
  by (simp add: FromHTML_def FromURL_def Generate_def GenerateFromURL_def split: prod.splits)

text \<open>
  C8. \<^verbatim>\<open>NewGenerator(nil)\<close> returns a generator whose options are the default ones:
  format A4, the four margins 0.4, portrait, background printing on, scale 1.0, a wait
  time of 2 seconds and a timeout of 30 seconds, every other field at its zero value.
  \<^verbatim>\<open>NewGenerator\<close> never returns a generator with a nil options pointer, so neither
  conversion call of such a generator panics.
\<close>

theorem NewGenerator_nil_default:
  "(\<exists>r w'. NewGenerator None w = (\<lparr>options = Some r\<rparr>, w')
       \<and> mem w' r = \<lparr>Format = ''A4'', Width = 0, Height = 0,
                       MarginTop = 0.4, MarginBottom = 0.4, MarginLeft = 0.4, MarginRight = 0.4,
                       Landscape = False, PrintBackground = True, Scale = 1.0,
                       DisplayHeaderFooter = False, HeaderTemplate = '''', FooterTemplate = '''',
                       WaitForSelector = '''', WaitTime = 2000000000, Timeout = 30000000000\<rparr>
       \<and> mem w' r = mem (snd (DefaultOptions w)) (fst (DefaultOptions w)))
   \<and> options (fst (NewGenerator opts w)) \<noteq> None
   \<and> Generator_FromHTML ev (fst (NewGenerator opts w)) s (snd (NewGenerator opts w)) \<noteq> Panic
   \<and> Generator_FromURL ev (fst (NewGenerator opts w)) s (snd (NewGenerator opts w)) \<noteq> Panic"
proof -
  have 1: "\<exists>r w'. NewGenerator None w = (\<lparr>options = Some r\<rparr>, w')
       \<and> mem w' r = \<lparr>Format = ''A4'', Width = 0, Height = 0,
                       MarginTop = 0.4, MarginBottom = 0.4, MarginLeft = 0.4, MarginRight = 0.4,
                       Landscape = False, PrintBackground = True, Scale = 1.0,
                       DisplayHeaderFooter = False, HeaderTemplate = '''', FooterTemplate = '''',
                       WaitForSelector = '''', WaitTime = 2000000000, Timeout = 30000000000\<rparr>
       \<and> mem w' r = mem (snd (DefaultOptions w)) (fst (DefaultOptions w))"
    by (simp add: NewGenerator_def DefaultOptions_def alloc_def default_record_def Second_def)
  obtain r where r: "options (fst (NewGenerator opts w)) = Some r"
    by (cases opts) (simp_all add: NewGenerator_def DefaultOptions_def alloc_def)
  have 3: "conversion ev (fst (NewGenerator opts w)) target msg (snd (NewGenerator opts w)) \<noteq> Panic"
    for target msg
    using conversion_cases [OF r, of "snd (NewGenerator opts w)" target ev msg] by auto
  show ?thesis
    using 1 r 3 unfolding Generator_FromHTML_conversion Generator_FromURL_conversion by simp
qed

text \<open>
  C9. When \<^verbatim>\<open>Format\<close> is not empty, the request that \<^verbatim>\<open>generatePDF\<close> builds, the answer
  it returns and the commands it performs are the same whatever \<^verbatim>\<open>Width\<close> and \<^verbatim>\<open>Height\<close>
  hold; and when that format is none of A4, A3, Letter, Legal, Tabloid, the paper
  width and the paper height of the request are zero.
\<close>

theorem generatePDF_format_ignores_size:
  "Format opt \<noteq> '''' \<longrightarrow>
     generatePDF_params (opt\<lparr>Width := width, Height := height\<rparr>) = generatePDF_params opt
     \<and> (options g = Some r \<and> mem w r = opt \<longrightarrow>
          (\<exists>res h. generatePDF g ctx w = Return (res, w\<lparr>history := h\<rparr>)
             \<and> generatePDF g ctx (w\<lparr>mem := (mem w)(r := opt\<lparr>Width := width, Height := height\<rparr>)\<rparr>)
                 = Return (res, w\<lparr>mem := (mem w)(r := opt\<lparr>Width := width, Height := height\<rparr>),
                                  history := h\<rparr>)))
     \<and> (Format opt \<notin> {''A4'', ''A3'', ''Letter'', ''Legal'', ''Tabloid''} \<longrightarrow>
          PaperWidth (generatePDF_params (opt\<lparr>Width := width, Height := height\<rparr>)) = 0
          \<and> PaperHeight (generatePDF_params (opt\<lparr>Width := width, Height := height\<rparr>)) = 0)"
proof (intro impI conjI)
  assume f: "Format opt \<noteq> ''''"
  show same: "generatePDF_params (opt\<lparr>Width := width, Height := height\<rparr>) = generatePDF_params opt"
    using f by (simp add: generatePDF_params_def Let_def)
  {
    assume "options g = Some r \<and> mem w r = opt"
    then have g: "options g = Some r" and opt: "mem w r = opt" by simp_all
    let ?h = "history w @ [PrintToPDF (generatePDF_params opt)]"
    let ?w2 = "w\<lparr>mem := (mem w)(r := opt\<lparr>Width := width, Height := height\<rparr>)\<rparr>"
    have g2: "generatePDF g ctx ?w2 =
       (case ctx (history w) (PrintToPDF (generatePDF_params opt)) of
          Inl e \<Rightarrow> Return ((None, Some (Errorf ''failed to generate PDF: '' e)), ?w2\<lparr>history := ?h\<rparr>)
        | Inr d \<Rightarrow> Return ((Some d, None), ?w2\<lparr>history := ?h\<rparr>))"
      using generatePDF_eq [OF g, of ctx ?w2] by (simp add: same split: sum.splits)
    have g1: "generatePDF g ctx w =
       (case ctx (history w) (PrintToPDF (generatePDF_params opt)) of
          Inl e \<Rightarrow> Return ((None, Some (Errorf ''failed to generate PDF: '' e)), w\<lparr>history := ?h\<rparr>)
        | Inr d \<Rightarrow> Return ((Some d, None), w\<lparr>history := ?h\<rparr>))"
      using generatePDF_eq [OF g, of ctx w] by (simp add: opt split: sum.splits)
    show "\<exists>res h. generatePDF g ctx w = Return (res, w\<lparr>history := h\<rparr>)
             \<and> generatePDF g ctx ?w2 = Return (res, ?w2\<lparr>history := h\<rparr>)"
      unfolding g1 g2
      by (cases "ctx (history w) (PrintToPDF (generatePDF_params opt))") auto
  }
  {
    assume "Format opt \<notin> {''A4'', ''A3'', ''Letter'', ''Legal'', ''Tabloid''}"
    then show "PaperWidth (generatePDF_params (opt\<lparr>Width := width, Height := height\<rparr>)) = 0"
      and "PaperHeight (generatePDF_params (opt\<lparr>Width := width, Height := height\<rparr>)) = 0"
      using f by (simp_all add: generatePDF_params_def Let_def)
  }
qed

theorem generatePDF_format_ignores_size_witness:
  "Format (default_record\<lparr>Format := ''B5''\<rparr>) \<noteq> ''''
   \<and> options generator0 = Some 0
   \<and> mem (world0\<lparr>mem := (mem world0)(0 := default_record\<lparr>Format := ''B5''\<rparr>)\<rparr>) 0
       = default_record\<lparr>Format := ''B5''\<rparr>
   \<and> Format (default_record\<lparr>Format := ''B5''\<rparr>) \<notin> {''A4'', ''A3'', ''Letter'', ''Legal'', ''Tabloid''}
   \<and> generatePDF_params (default_record\<lparr>Format := ''B5'', Width := 6.9, Height := 9.8\<rparr>)
       = generatePDF_params (default_record\<lparr>Format := ''B5''\<rparr>)
   \<and> PaperWidth (generatePDF_params (default_record\<lparr>Format := ''B5'', Width := 6.9, Height := 9.8\<rparr>)) = 0
   \<and> PaperHeight (generatePDF_params (default_record\<lparr>Format := ''B5'', Width := 6.9, Height := 9.8\<rparr>)) = 0
   \<and> fst (returned (generatePDF generator0 (NewContext env_ok 0)
         (world0\<lparr>mem := (mem world0)(0 := default_record\<lparr>Format := ''B5'', Width := 6.9, Height := 9.8\<rparr>)\<rparr>)))
       = fst (returned (generatePDF generator0 (NewContext env_ok 0)
         (world0\<lparr>mem := (mem world0)(0 := default_record\<lparr>Format := ''B5''\<rparr>)\<rparr>)))"
  using generatePDF_format_ignores_size
    [where opt = "default_record\<lparr>Format := ''B5''\<rparr>" and width = "6.9" and height = "9.8"
       and g = generator0 and r = 0 and ctx = "NewContext env_ok 0"
       and w = "world0\<lparr>mem := (mem world0)(0 := default_record\<lparr>Format := ''B5''\<rparr>)\<rparr>"]
  by (auto simp add: generator0_def world0_def)

text \<open>
  C10, as stated: after \<^verbatim>\<open>Size\<close> and no later \<^verbatim>\<open>Format\<close> call the conversion always uses
  the custom dimensions. It does not when one of them is not positive: after
  \<^verbatim>\<open>Size(8.5, 0)\<close> on the default options the format is cleared and the width stored,
  but the request has paper width 0, not 8.5.
\<close>

theorem Size_not_positive_counterexample:
  "Format (mem (snd (returned (OptionsBuilder_Size builder0 8.5 0 world0))) 0) = ''''
   \<and> Width (mem (snd (returned (OptionsBuilder_Size builder0 8.5 0 world0))) 0) = 8.5
   \<and> Height (mem (snd (returned (OptionsBuilder_Size builder0 8.5 0 world0))) 0) = 0
   \<and> PaperWidth (generatePDF_params (mem (snd (returned (OptionsBuilder_Size builder0 8.5 0 world0))) 0)) = 0
   \<and> PaperWidth (generatePDF_params (mem (snd (returned (OptionsBuilder_Size builder0 8.5 0 world0))) 0)) \<noteq> 8.5
   \<and> last (history (snd (returned (Generate env_ok builder0 ''hello''
         (snd (returned (OptionsBuilder_Size builder0 8.5 0 world0)))))))
       = PrintToPDF \<lparr>Landscape_req = False, DisplayHeaderFooter_req = False, PrintBackground_req = True,
           Scale_req = 1, PaperWidth = 0, PaperHeight = 0,
           MarginTop_req = 0.4, MarginBottom_req = 0.4, MarginLeft_req = 0.4, MarginRight_req = 0.4,
           HeaderTemplate_req = '''', FooterTemplate_req = ''''\<rparr>"
  by (simp add: OptionsBuilder_Size_def assign_def builder0_def world0_def default_record_def
      generatePDF_params_def Let_def Generate_def Build_def NewGenerator_def
      Generator_FromHTML_def waitForConditions_def Run_def perform_def generatePDF_def
      PrintToPDFParams_Do_def env_ok_def Second_def)

text \<open>
  C10, amended: \<^verbatim>\<open>Size(width, height)\<close> sets \<^verbatim>\<open>Width\<close> and \<^verbatim>\<open>Height\<close> and clears
  \<^verbatim>\<open>Format\<close>. After any further setter calls none of which is \<^verbatim>\<open>Format\<close>, the format
  is still empty (and, when none of them is \<^verbatim>\<open>Size\<close>, the width and the height are
  still the given ones), so the conversion uses no named format: the only print
  request it sends has the stored \<^verbatim>\<open>Width\<close> and \<^verbatim>\<open>Height\<close> as paper size when both
  are positive, and paper width and height zero when one of them is not.
\<close>

theorem Size_then_no_Format:
  assumes b: "options_b b = Some r"
    and nf: "\<forall>c\<in>set calls. \<not> is_CallFormat c"
  shows "\<exists>w1 w2. OptionsBuilder_Size b width height w = Return (b, w1)
      \<and> Width (mem w1 r) = width \<and> Height (mem w1 r) = height \<and> Format (mem w1 r) = ''''
      \<and> chain b calls w1 = Return (b, w2)
      \<and> Format (mem w2 r) = ''''
      \<and> ((\<forall>c\<in>set calls. \<not> is_CallSize c) \<longrightarrow> Width (mem w2 r) = width \<and> Height (mem w2 r) = height)
      \<and> PaperWidth (generatePDF_params (mem w2 r))
          = (if 0 < Width (mem w2 r) \<and> 0 < Height (mem w2 r) then Width (mem w2 r) else 0)
      \<and> PaperHeight (generatePDF_params (mem w2 r))
          = (if 0 < Width (mem w2 r) \<and> 0 < Height (mem w2 r) then Height (mem w2 r) else 0)
      \<and> (\<forall>ev html. \<exists>res w3. Generate ev b html w2 = Return (res, w3)
            \<and> (\<forall>p. PrintToPDF p \<in> set (drop (length (history w2)) (history w3))
                  \<longrightarrow> p = generatePDF_params (mem w2 r)))"
proof -
  define w1 where "w1 = w\<lparr>mem := (mem w)(r := (mem w r)\<lparr>Width := width, Height := height, Format := ''''\<rparr>)\<rparr>"
  have size: "OptionsBuilder_Size b width height w = Return (b, w1)"
    by (simp add: OptionsBuilder_Size_def assign_Some [OF b] w1_def)
  have f1: "Width (mem w1 r) = width" "Height (mem w1 r) = height" "Format (mem w1 r) = ''''"
    by (simp_all add: w1_def)
  from chain_keeps [OF b, of calls w1] obtain w2 where ch: "chain b calls w1 = Return (b, w2)"
    and f2: "Format (mem w2 r) = ''''"
    and s2: "(\<forall>c\<in>set calls. \<not> is_CallSize c) \<longrightarrow> Width (mem w2 r) = width \<and> Height (mem w2 r) = height"
    using nf f1 by auto
  have pw: "PaperWidth (generatePDF_params (mem w2 r))
          = (if 0 < Width (mem w2 r) \<and> 0 < Height (mem w2 r) then Width (mem w2 r) else 0)"
    and ph: "PaperHeight (generatePDF_params (mem w2 r))
          = (if 0 < Width (mem w2 r) \<and> 0 < Height (mem w2 r) then Height (mem w2 r) else 0)"
    using f2 by (simp_all add: generatePDF_params_def Let_def)
  have gen: "\<exists>res w3. Generate ev b html w2 = Return (res, w3)
            \<and> (\<forall>p. PrintToPDF p \<in> set (drop (length (history w2)) (history w3))
                  \<longrightarrow> p = generatePDF_params (mem w2 r))" for ev html
  proof -
    let ?g = "\<lparr>options = Some r\<rparr>"
    let ?t = "''data:text/html;charset=utf-8,'' @ PathEscape ev html"
    have g: "options ?g = Some r" by simp
    have G: "Generate ev b html w2 = conversion ev ?g ?t ''failed to generate PDF: '' w2"
      by (simp add: Generate_def Build_def NewGenerator_def b Generator_FromHTML_conversion)
    from conversion_cases [OF g, of w2 ?t ev "''failed to generate PDF: ''"]
    obtain k res where c: "conversion ev ?g ?t ''failed to generate PDF: '' w2
        = Return (res, w2\<lparr>history := history w2 @ take (Suc k) (fixed_sequence (mem w2 r) ?t)\<rparr>)"
      by blast
    have "p = generatePDF_params (mem w2 r)"
      if "PrintToPDF p \<in> set (take (Suc k) (fixed_sequence (mem w2 r) ?t))" for p
      using that PrintToPDF_in_fixed_sequence [of p "mem w2 r" ?t] by (blast dest: in_set_takeD)
    then show ?thesis unfolding G c by simp
  qed
  show ?thesis
    using size f1 ch f2 s2 pw ph gen by blast
qed

theorem Size_then_no_Format_witness:
  "options_b builder0 = Some 0
   \<and> \<not> is_CallFormat CallLandscape \<and> \<not> is_CallFormat (CallMargins 0.5 0.5 0.5 0.5)
   \<and> (\<exists>w2. chain builder0 [CallLandscape, CallMargins 0.5 0.5 0.5 0.5]
               (snd (returned (OptionsBuilder_Size builder0 8.5 11 world0))) = Return (builder0, w2)
         \<and> Format (mem w2 0) = ''''
         \<and> PaperWidth (generatePDF_params (mem w2 0)) = 8.5
         \<and> PaperHeight (generatePDF_params (mem w2 0)) = 11)"
proof -
  have h: "options_b builder0 = Some 0" by (simp add: builder0_def)
  have nf: "\<forall>c\<in>set [CallLandscape, CallMargins 0.5 0.5 0.5 0.5]. \<not> is_CallFormat c" by simp
  have ns: "\<forall>c\<in>set [CallLandscape, CallMargins 0.5 0.5 0.5 0.5]. \<not> is_CallSize c" by simp
  show ?thesis
    using h nf ns Size_then_no_Format [OF h nf, of "8.5" 11 world0] by auto
qed

end
